theory Spec2Isabelle
  imports Main
begin

section \<open>Method-stub synthesis: the data of go/types and go/ast that the code reads\<close>

text \<open>
  The development embeds \<^verbatim>\<open>internal/lsp/source/stub.go\<close> (the code action) and the
  parts of \<^verbatim>\<open>internal/impl/impl.go\<close> (the command) that differ from it.
  Values of go/types and go/ast are reduced to the fields the code consults.
\<close>

subsection \<open>go/types\<close>

text \<open>\<^verbatim>\<open>*types.Package\<close>: \<^verbatim>\<open>Path()\<close> and \<^verbatim>\<open>Name()\<close>.\<close>

datatype package = Package (Path: string) (Name: string)

text \<open>
  \<^verbatim>\<open>types.Type\<close>. \<open>Named n p u\<close> is a \<^verbatim>\<open>*types.Named\<close> whose \<^verbatim>\<open>Obj()\<close> has
  name \<open>n\<close> and package \<open>p\<close> (\<open>None\<close> is the nil package of a universe type such as
  \<^verbatim>\<open>error\<close>) and whose \<^verbatim>\<open>Underlying()\<close> is \<open>u\<close>. \<open>Interface es ms\<close> lists the
  embedded types and the explicit methods in the order of \<^verbatim>\<open>Embedded(i)\<close> and
  \<^verbatim>\<open>ExplicitMethod(i)\<close>. A \<open>Func\<close> is a \<^verbatim>\<open>*types.Func\<close> with its \<^verbatim>\<open>Name()\<close> and
  its \<^verbatim>\<open>Type()\<close>, which go/types makes a \<^verbatim>\<open>*types.Signature\<close>. Go rejects an
  interface that embeds itself, so the embedding graph, with shared nodes repeated, is a
  finite tree.
\<close>

datatype gtype =
    Basic string
  | Pointer gtype
  | Slice gtype
  | SigType signature
  | Named string "package option" gtype
  | Interface "gtype list" "func list"
and signature = Signature "gtype list" "gtype list" bool
and func = Func (FuncName: string) (FuncSig: signature)

fun Underlying :: "gtype \<Rightarrow> gtype" where
  "Underlying (Named n p u) = u"
| "Underlying t = t"

text \<open>
  \<^verbatim>\<open>types.Object\<close>: its dynamic kind (a \<^verbatim>\<open>*types.PkgName\<close> carries \<^verbatim>\<open>Imported()\<close>),
  \<^verbatim>\<open>Name()\<close>, \<^verbatim>\<open>Pkg()\<close> (may be nil) and \<^verbatim>\<open>Type()\<close>.
\<close>

datatype objkind = PkgNameObj package | TypeNameObj | OtherObj

datatype object =
  Object (ObjKind: objkind) (ObjName: string) (ObjPkg: "package option") (ObjType: gtype)

subsection \<open>Errors\<close>

text \<open>
  A Go error value, or a run-time panic. \<open>Wrapped s e\<close> is \<^verbatim>\<open>fmt.Errorf("s: %w", e)\<close>;
  \<open>MismatchError name have want\<close> is the struct \<^verbatim>\<open>mismatchError\<close> with its two
  \<^verbatim>\<open>*types.Signature\<close>.
\<close>

datatype error =
    Errorf string
  | Wrapped string error
  | MismatchError string signature signature
  | Panic string

subsection \<open>go/ast\<close>

text \<open>
  \<^verbatim>\<open>*ast.Ident\<close>. \<^verbatim>\<open>types.Info.Uses\<close> is keyed by the pointer; the position of the
  identifier in its file stands for the pointer here. \<^verbatim>\<open>copyAST\<close> is not part of the
  sources at hand; the rewriter resolves the identifiers of the copy in \<open>Uses\<close>, so the
  copy is taken to resolve as the original does, and a tree value is its own copy.
\<close>

datatype ident = MkIdent (NamePos: nat) (IdName: string)

text \<open>
  The nodes of a signature subtree. A \<open>Field\<close> has its \<^verbatim>\<open>Names\<close> (a slice of
  \<^verbatim>\<open>*ast.Ident\<close>) and its \<^verbatim>\<open>Type\<close>; tags and comments hold no identifiers and are
  left out. The \<^verbatim>\<open>Len\<close> of an array type may be nil.
\<close>

datatype expr =
    Ident ident
  | SelectorExpr expr ident
  | StarExpr expr
  | ParenExpr expr
  | Ellipsis expr
  | ArrayType "expr option" expr
  | MapType expr expr
  | ChanType expr
  | FuncType "field list" "field list"
  | InterfaceType "field list"
  | StructType "field list"
  | BasicLit string
and field = Field "ident list" expr

text \<open>
  \<^verbatim>\<open>*ast.ImportSpec\<close>: the optional \<^verbatim>\<open>Name\<close> and the path, already unquoted
  (\<^verbatim>\<open>strconv.Unquote(imp.Path.Value)\<close>). \<^verbatim>\<open>*ast.File\<close>: the package name, its
  \<^verbatim>\<open>Imports\<close>, and the declarations, which the code embedded here never looks into.
\<close>

datatype importSpec = ImportSpec (ImpName: "string option") (ImpPath: string)

datatype astFile = AstFile (FileName: string) (Imports: "importSpec list") (Decls: string)

subsection \<open>The packages of the language server\<close>

text \<open>
  \<^verbatim>\<open>source.Package\<close>: \<^verbatim>\<open>PkgPath()\<close>, \<^verbatim>\<open>Name()\<close> and \<^verbatim>\<open>GetTypesInfo().Uses\<close>.
  \<^verbatim>\<open>GetImport\<close> belongs to the snapshot and is a parameter where it is called.
\<close>

record srcPackage =
  PkgPath :: string
  PkgName :: string
  Uses :: "ident \<Rightarrow> object option"

subsection \<open>The concrete type\<close>

text \<open>
  \<^verbatim>\<open>addedImport\<close> and \<^verbatim>\<open>concreteType\<close>. A method set is read only through
  \<^verbatim>\<open>Lookup(ct.pkg, name)\<close> followed by \<^verbatim>\<open>Type()\<close>, so it is the map from a method
  name to the signature of the selection; the file set is not read by the code embedded
  here.
\<close>

datatype addedImport = AddedImport (AddName: string) (AddPath: string)

record concreteType =
  pkg :: package
  cfile :: astFile
  tms :: "string \<Rightarrow> signature option"
  pms :: "string \<Rightarrow> signature option"
  addedImports :: "addedImport list"

definition doesNotHaveMethod :: "concreteType \<Rightarrow> string \<Rightarrow> bool" where
  "doesNotHaveMethod ct name \<longleftrightarrow> tms ct name = None \<and> pms ct name = None"

definition getMethodSelection :: "concreteType \<Rightarrow> string \<Rightarrow> signature option" where
  "getMethodSelection ct name =
     (case tms ct name of Some sel \<Rightarrow> Some sel | None \<Rightarrow> pms ct name)"

text \<open>
  \<^verbatim>\<open>addImport\<close> of stub.go: the loop returns at the first entry with the same name and
  path, otherwise the pair is appended.
\<close>

fun hasAdded :: "string \<Rightarrow> string \<Rightarrow> addedImport list \<Rightarrow> bool" where
  "hasAdded name path [] = False"
| "hasAdded name path (imp # imps) =
     (if AddName imp = name \<and> AddPath imp = path then True else hasAdded name path imps)"

definition addImport :: "string \<Rightarrow> string \<Rightarrow> concreteType \<Rightarrow> concreteType" where
  "addImport name path ct =
     (if hasAdded name path (addedImports ct) then ct
      else ct\<lparr>addedImports := addedImports ct @ [AddedImport name path]\<rparr>)"

text \<open>\<^verbatim>\<open>addImport\<close> of impl.go appends without looking.\<close>

definition addImport_impl :: "string \<Rightarrow> string \<Rightarrow> concreteType \<Rightarrow> concreteType" where
  "addImport_impl name path ct = ct\<lparr>addedImports := addedImports ct @ [AddedImport name path]\<rparr>"

definition isIgnoredImport :: "importSpec \<Rightarrow> bool" where
  "isIgnoredImport imp \<longleftrightarrow>
     (case ImpName imp of None \<Rightarrow> False | Some n \<Rightarrow> n = ''.'' \<or> n = ''_'')"

text \<open>
  The loop over \<^verbatim>\<open>ct.file.Imports\<close> that \<^verbatim>\<open>mightRenameSelector\<close> and
  \<^verbatim>\<open>mightAddSelector\<close> of stub.go both run: it stops at the first import of the path
  that is not ignored.
\<close>

fun findImport :: "string \<Rightarrow> importSpec list \<Rightarrow> importSpec option" where
  "findImport path [] = None"
| "findImport path (imp # imps) =
     (if ImpPath imp = path \<and> \<not> isIgnoredImport imp then Some imp else findImport path imps)"

text \<open>
  \<^verbatim>\<open>hasImport\<close> of impl.go: the same loop, then a loop over the added imports that
  compares paths only and builds an import spec whose name is nil for an empty name.
\<close>

fun findAdded :: "string \<Rightarrow> addedImport list \<Rightarrow> importSpec option" where
  "findAdded path [] = None"
| "findAdded path (imp # imps) =
     (if AddPath imp = path
      then Some (ImportSpec (if AddName imp \<noteq> [] then Some (AddName imp) else None) (AddPath imp))
      else findAdded path imps)"

definition hasImport :: "concreteType \<Rightarrow> string \<Rightarrow> importSpec option" where
  "hasImport ct path =
     (case findImport path (Imports (cfile ct)) of
        Some imp \<Rightarrow> Some imp
      | None \<Rightarrow> findAdded path (addedImports ct))"

section \<open>The signature rewriter\<close>

subsection \<open>stub.go\<close>

text \<open>
  Each of the three functions ends every path with \<^verbatim>\<open>return false\<close>; the model returns
  that boolean, together with what the call leaves behind: the selector's \<^verbatim>\<open>X\<close> for
  \<^verbatim>\<open>mightRenameSelector\<close> (which replaces the node by itself), the node under the
  cursor for the other two, and the concrete type with its added imports.
\<close>

definition mightRenameSelector ::
  "(ident \<Rightarrow> object option) \<Rightarrow> expr \<Rightarrow> ident \<Rightarrow> concreteType \<Rightarrow> expr \<times> concreteType \<times> bool" where
  "mightRenameSelector uses x sel ct =
     (case x of
        Ident ident \<Rightarrow>
          (case uses ident of
             None \<Rightarrow> (x, ct, False)
           | Some obj \<Rightarrow>
               (case ObjKind obj of
                  PkgNameObj p \<Rightarrow>
                    (case findImport (Path p) (Imports (cfile ct)) of
                       Some imp \<Rightarrow>
                         (let importName =
                                (case ImpName imp of
                                   Some n \<Rightarrow> if n \<noteq> Name p then n else Name p
                                 | None \<Rightarrow> Name p)
                          in (Ident (MkIdent (NamePos ident) importName), ct, False))
                     | None \<Rightarrow>
                         if Path p = Path (pkg ct) then (x, ct, False)
                         else (let importName = (if ObjName obj \<noteq> Name p then ObjName obj else [])
                               in (x, addImport importName (Path p) ct, False)))
                | _ \<Rightarrow> (x, ct, False)))
      | _ \<Rightarrow> (x, ct, False))"

definition mightRemoveSelector ::
  "(ident \<Rightarrow> object option) \<Rightarrow> expr \<Rightarrow> ident \<Rightarrow> string \<Rightarrow> expr \<times> bool" where
  "mightRemoveSelector uses x sel implPath =
     (case uses sel of
        None \<Rightarrow> (SelectorExpr x sel, False)
      | Some obj \<Rightarrow>
          (case ObjPkg obj of
             None \<Rightarrow> (SelectorExpr x sel, False)
           | Some p \<Rightarrow>
               if Path p = implPath then (Ident sel, False)
               else (SelectorExpr x sel, False)))"

definition mightAddSelector ::
  "ident \<Rightarrow> srcPackage \<Rightarrow> concreteType \<Rightarrow> expr \<times> concreteType \<times> bool" where
  "mightAddSelector ident ifacePkg ct =
     (case Uses ifacePkg ident of
        None \<Rightarrow> (Ident ident, ct, False)
      | Some obj \<Rightarrow>
          (case ObjType obj of
             Named n None u \<Rightarrow> (Ident ident, ct, False)
           | Named n (Some p) u \<Rightarrow>
               (let found = findImport (Path p) (Imports (cfile ct));
                    pkgName = (case found of
                                 Some imp \<Rightarrow> (case ImpName imp of Some a \<Rightarrow> a | None \<Rightarrow> Name p)
                               | None \<Rightarrow> Name p);
                    missingImport = (found = None);
                    isNotImportingDestination = (Path p \<noteq> Path (pkg ct));
                    ct' = (if missingImport \<and> isNotImportingDestination
                           then addImport [] (Path p) ct else ct);
                    isLocalDeclaration = (Path p = PkgPath ifacePkg \<and> Path p \<noteq> Path (pkg ct));
                    isDotImport = (Path p \<noteq> PkgPath ifacePkg \<and> Path p \<noteq> Path (pkg ct))
                in if isLocalDeclaration \<or> isDotImport
                   then (SelectorExpr (Ident (MkIdent 0 pkgName)) ident, ct', False)
                   else (Ident ident, ct', False))
           | _ \<Rightarrow> (Ident ident, ct, False)))"

text \<open>
  The function literal that \<^verbatim>\<open>MethodStubActions\<close> passes to \<^verbatim>\<open>astutil.Apply\<close>:
  selectors are resolved in the package of the interface that declares the method
  (\<^verbatim>\<open>mi.pkg\<close>), bare identifiers in the package of the requested interface
  (\<^verbatim>\<open>ir.ifacePkg\<close>).
\<close>

definition rewriteNode ::
  "srcPackage \<Rightarrow> srcPackage \<Rightarrow> expr \<Rightarrow> concreteType \<Rightarrow> error + (expr \<times> concreteType \<times> bool)" where
  "rewriteNode miPkg ifacePkg n ct =
     (case n of
        SelectorExpr x sel \<Rightarrow>
          (case mightRenameSelector (Uses miPkg) x sel ct of
             (x', ct', renamed) \<Rightarrow>
               (case mightRemoveSelector (Uses miPkg) x' sel (Path (pkg ct')) of
                  (n', removed) \<Rightarrow> Inr (n', ct', removed \<or> renamed)))
      | Ident ident \<Rightarrow> Inr (mightAddSelector ident ifacePkg ct)
      | _ \<Rightarrow> Inr (n, ct, True))"

subsection \<open>impl.go\<close>

text \<open>
  The same three functions in impl.go. They look imports up with \<^verbatim>\<open>hasImport\<close>, which
  also sees the imports added so far, and queue with the \<^verbatim>\<open>addImport\<close> that appends.
  \<^verbatim>\<open>mightRemoveSelector\<close> calls \<^verbatim>\<open>obj.Pkg().Path()\<close> without a nil check: a nil
  object or a nil package is a nil dereference. \<^verbatim>\<open>mightRenameSelector\<close> assigns
  \<^verbatim>\<open>ident.Name\<close> in the copied tree.
\<close>

definition mightRenameSelector_impl ::
  "(ident \<Rightarrow> object option) \<Rightarrow> expr \<Rightarrow> ident \<Rightarrow> concreteType \<Rightarrow> expr \<times> concreteType \<times> bool" where
  "mightRenameSelector_impl uses x sel ct =
     (case x of
        Ident ident \<Rightarrow>
          (case uses ident of
             None \<Rightarrow> (x, ct, False)
           | Some obj \<Rightarrow>
               (case ObjKind obj of
                  PkgNameObj p \<Rightarrow>
                    (case hasImport ct (Path p) of
                       Some imp \<Rightarrow>
                         (let importName =
                                (case ImpName imp of
                                   Some n \<Rightarrow> if n \<noteq> Name p then n else Name p
                                 | None \<Rightarrow> Name p)
                          in (Ident (MkIdent (NamePos ident) importName), ct, False))
                     | None \<Rightarrow>
                         if Path p = Path (pkg ct) then (x, ct, False)
                         else (let importName = (if ObjName obj \<noteq> Name p then ObjName obj else [])
                               in (x, addImport_impl importName (Path p) ct, False)))
                | _ \<Rightarrow> (x, ct, False)))
      | _ \<Rightarrow> (x, ct, False))"

definition mightRemoveSelector_impl ::
  "(ident \<Rightarrow> object option) \<Rightarrow> expr \<Rightarrow> ident \<Rightarrow> string \<Rightarrow> error + (expr \<times> bool)" where
  "mightRemoveSelector_impl uses x sel implPath =
     (case uses sel of
        None \<Rightarrow> Inl (Panic ''invalid memory address or nil pointer dereference'')
      | Some obj \<Rightarrow>
          (case ObjPkg obj of
             None \<Rightarrow> Inl (Panic ''invalid memory address or nil pointer dereference'')
           | Some p \<Rightarrow>
               if Path p = implPath then Inr (Ident sel, False)
               else Inr (SelectorExpr x sel, False)))"

definition mightAddSelector_impl ::
  "ident \<Rightarrow> srcPackage \<Rightarrow> concreteType \<Rightarrow> expr \<times> concreteType \<times> bool" where
  "mightAddSelector_impl ident ifacePkg ct =
     (case Uses ifacePkg ident of
        None \<Rightarrow> (Ident ident, ct, False)
      | Some obj \<Rightarrow>
          (case ObjType obj of
             Named n None u \<Rightarrow> (Ident ident, ct, False)
           | Named n (Some p) u \<Rightarrow>
               (let found = hasImport ct (Path p);
                    pkgName = (case found of
                                 Some imp \<Rightarrow> (case ImpName imp of Some a \<Rightarrow> a | None \<Rightarrow> Name p)
                               | None \<Rightarrow> Name p);
                    missingImport = (found = None);
                    isNotImportingDestination = (Path p \<noteq> Path (pkg ct));
                    ct' = (if missingImport \<and> isNotImportingDestination
                           then addImport_impl [] (Path p) ct else ct);
                    isLocalDeclaration = (Path p = PkgPath ifacePkg \<and> Path p \<noteq> Path (pkg ct));
                    isDotImport = (Path p \<noteq> PkgPath ifacePkg \<and> Path p \<noteq> Path (pkg ct))
                in if isLocalDeclaration \<or> isDotImport
                   then (SelectorExpr (Ident (MkIdent 0 pkgName)) ident, ct', False)
                   else (Ident ident, ct', False))
           | _ \<Rightarrow> (Ident ident, ct, False)))"

text \<open>
  The function literal of \<^verbatim>\<open>Implement\<close>: every lookup is in the package of the
  requested interface, and \<open>implPath\<close> is the path of the implementing package.
\<close>

definition rewriteNode_impl ::
  "srcPackage \<Rightarrow> string \<Rightarrow> expr \<Rightarrow> concreteType \<Rightarrow> error + (expr \<times> concreteType \<times> bool)" where
  "rewriteNode_impl ifacePkg implPath n ct =
     (case n of
        SelectorExpr x sel \<Rightarrow>
          (case mightRenameSelector_impl (Uses ifacePkg) x sel ct of
             (x', ct', renamed) \<Rightarrow>
               (case mightRemoveSelector_impl (Uses ifacePkg) x' sel implPath of
                  Inl e \<Rightarrow> Inl e
                | Inr (n', removed) \<Rightarrow> Inr (n', ct', removed \<or> renamed)))
      | Ident ident \<Rightarrow> Inr (mightAddSelector_impl ident ifacePkg ct)
      | _ \<Rightarrow> Inr (n, ct, True))"

subsection \<open>The walk of astutil.Apply\<close>

text \<open>
  \<^verbatim>\<open>astutil.Apply(n, pre, nil)\<close> calls \<open>pre\<close> on a node before its children and skips the
  children when it returns false. \<open>pre\<close> is given the node and the state it may change,
  and returns the node that the cursor holds afterwards (the argument of \<^verbatim>\<open>Replace\<close>,
  or the node itself), the state and its boolean. When \<open>pre\<close> returns true, Apply goes on
  with the children of the node it was called on; the callbacks below return true only
  for a node they leave in place. A slot of type \<^verbatim>\<open>*ast.Ident\<close> (a field name, the
  \<^verbatim>\<open>Sel\<close> of a selector) cannot hold another kind of node: \<^verbatim>\<open>Replace\<close> sets it
  through reflection and panics.
\<close>

type_synonym 's pre = "expr \<Rightarrow> 's \<Rightarrow> error + (expr \<times> 's \<times> bool)"

definition applyIdent :: "'s pre \<Rightarrow> ident \<Rightarrow> 's \<Rightarrow> error + (ident \<times> 's)" where
  "applyIdent pre i s =
     (case pre (Ident i) s of
        Inl e \<Rightarrow> Inl e
      | Inr (n', s', descend) \<Rightarrow>
          if descend then Inr (i, s')
          else (case n' of
                  Ident i' \<Rightarrow> Inr (i', s')
                | _ \<Rightarrow> Inl (Panic ''reflect.Set: value is not assignable to type *ast.Ident'')))"

fun applyNames :: "'s pre \<Rightarrow> ident list \<Rightarrow> 's \<Rightarrow> error + (ident list \<times> 's)" where
  "applyNames pre [] s = Inr ([], s)"
| "applyNames pre (i # is) s =
     (case applyIdent pre i s of
        Inl e \<Rightarrow> Inl e
      | Inr (i', s1) \<Rightarrow>
          (case applyNames pre is s1 of
             Inl e \<Rightarrow> Inl e
           | Inr (is', s2) \<Rightarrow> Inr (i' # is', s2)))"

fun applyExpr :: "'s pre \<Rightarrow> expr \<Rightarrow> 's \<Rightarrow> error + (expr \<times> 's)"
  and applyChildren :: "'s pre \<Rightarrow> expr \<Rightarrow> 's \<Rightarrow> error + (expr \<times> 's)"
  and applyFields :: "'s pre \<Rightarrow> field list \<Rightarrow> 's \<Rightarrow> error + (field list \<times> 's)"
  and applyField :: "'s pre \<Rightarrow> field \<Rightarrow> 's \<Rightarrow> error + (field \<times> 's)"
where
  "applyExpr pre n s =
     (case pre n s of
        Inl e \<Rightarrow> Inl e
      | Inr (n', s', descend) \<Rightarrow> if descend then applyChildren pre n s' else Inr (n', s'))"
| "applyChildren pre (Ident i) s = Inr (Ident i, s)"
| "applyChildren pre (BasicLit v) s = Inr (BasicLit v, s)"
| "applyChildren pre (SelectorExpr x sel) s =
     (case applyExpr pre x s of
        Inl e \<Rightarrow> Inl e
      | Inr (x', s1) \<Rightarrow>
          (case applyIdent pre sel s1 of
             Inl e \<Rightarrow> Inl e
           | Inr (sel', s2) \<Rightarrow> Inr (SelectorExpr x' sel', s2)))"
| "applyChildren pre (StarExpr x) s =
     (case applyExpr pre x s of Inl e \<Rightarrow> Inl e | Inr (x', s1) \<Rightarrow> Inr (StarExpr x', s1))"
| "applyChildren pre (ParenExpr x) s =
     (case applyExpr pre x s of Inl e \<Rightarrow> Inl e | Inr (x', s1) \<Rightarrow> Inr (ParenExpr x', s1))"
| "applyChildren pre (Ellipsis x) s =
     (case applyExpr pre x s of Inl e \<Rightarrow> Inl e | Inr (x', s1) \<Rightarrow> Inr (Ellipsis x', s1))"
| "applyChildren pre (ChanType x) s =
     (case applyExpr pre x s of Inl e \<Rightarrow> Inl e | Inr (x', s1) \<Rightarrow> Inr (ChanType x', s1))"
| "applyChildren pre (ArrayType None elt) s =
     (case applyExpr pre elt s of
        Inl e \<Rightarrow> Inl e
      | Inr (elt', s1) \<Rightarrow> Inr (ArrayType None elt', s1))"
| "applyChildren pre (ArrayType (Some len) elt) s =
     (case applyExpr pre len s of
        Inl e \<Rightarrow> Inl e
      | Inr (len', s1) \<Rightarrow>
          (case applyExpr pre elt s1 of
             Inl e \<Rightarrow> Inl e
           | Inr (elt', s2) \<Rightarrow> Inr (ArrayType (Some len') elt', s2)))"
| "applyChildren pre (MapType k v) s =
     (case applyExpr pre k s of
        Inl e \<Rightarrow> Inl e
      | Inr (k', s1) \<Rightarrow>
          (case applyExpr pre v s1 of
             Inl e \<Rightarrow> Inl e
           | Inr (v', s2) \<Rightarrow> Inr (MapType k' v', s2)))"
| "applyChildren pre (FuncType params results) s =
     (case applyFields pre params s of
        Inl e \<Rightarrow> Inl e
      | Inr (params', s1) \<Rightarrow>
          (case applyFields pre results s1 of
             Inl e \<Rightarrow> Inl e
           | Inr (results', s2) \<Rightarrow> Inr (FuncType params' results', s2)))"
| "applyChildren pre (InterfaceType methods) s =
     (case applyFields pre methods s of
        Inl e \<Rightarrow> Inl e
      | Inr (methods', s1) \<Rightarrow> Inr (InterfaceType methods', s1))"
| "applyChildren pre (StructType flds) s =
     (case applyFields pre flds s of
        Inl e \<Rightarrow> Inl e
      | Inr (flds', s1) \<Rightarrow> Inr (StructType flds', s1))"
| "applyFields pre [] s = Inr ([], s)"
| "applyFields pre (f # fs) s =
     (case applyField pre f s of
        Inl e \<Rightarrow> Inl e
      | Inr (f', s1) \<Rightarrow>
          (case applyFields pre fs s1 of
             Inl e \<Rightarrow> Inl e
           | Inr (fs', s2) \<Rightarrow> Inr (f' # fs', s2)))"
| "applyField pre (Field names t) s =
     (case applyNames pre names s of
        Inl e \<Rightarrow> Inl e
      | Inr (names', s1) \<Rightarrow>
          (case applyExpr pre t s1 of
             Inl e \<Rightarrow> Inl e
           | Inr (t', s2) \<Rightarrow> Inr (Field names' t', s2)))"

text \<open>
  The rewrite of one method signature in \<^verbatim>\<open>MethodStubActions\<close>: the copy of the
  method's function type, walked with the function literal.
\<close>

definition rewriteSignature ::
  "srcPackage \<Rightarrow> srcPackage \<Rightarrow> expr \<Rightarrow> concreteType \<Rightarrow> error + (expr \<times> concreteType)" where
  "rewriteSignature miPkg ifacePkg n ct = applyExpr (rewriteNode miPkg ifacePkg) n ct"

definition rewriteSignature_impl ::
  "srcPackage \<Rightarrow> string \<Rightarrow> expr \<Rightarrow> concreteType \<Rightarrow> error + (expr \<times> concreteType)" where
  "rewriteSignature_impl ifacePkg implPath n ct = applyExpr (rewriteNode_impl ifacePkg implPath) n ct"

subsection \<open>The nodes at which the rewriter stops\<close>

text \<open>
  The callbacks of both files return false on every identifier and selector and true on
  every other node, which they leave alone. The walk therefore stops at the outermost
  identifiers and selectors of the tree (the names of a field among them) and changes
  nothing else. \<open>topNodes\<close> lists these nodes in the order of the walk, and
  \<open>visitNodes\<close> runs a callback over such a list, threading the state.
\<close>

fun isName :: "expr \<Rightarrow> bool" where
  "isName (Ident i) = True"
| "isName (SelectorExpr x sel) = True"
| "isName n = False"

fun topNodes :: "expr \<Rightarrow> expr list"
  and topNodesFields :: "field list \<Rightarrow> expr list"
  and topNodesField :: "field \<Rightarrow> expr list"
where
  "topNodes (Ident i) = [Ident i]"
| "topNodes (SelectorExpr x sel) = [SelectorExpr x sel]"
| "topNodes (StarExpr x) = topNodes x"
| "topNodes (ParenExpr x) = topNodes x"
| "topNodes (Ellipsis x) = topNodes x"
| "topNodes (ArrayType None elt) = topNodes elt"
| "topNodes (ArrayType (Some len) elt) = topNodes len @ topNodes elt"
| "topNodes (MapType k v) = topNodes k @ topNodes v"
| "topNodes (ChanType x) = topNodes x"
| "topNodes (FuncType params results) = topNodesFields params @ topNodesFields results"
| "topNodes (InterfaceType methods) = topNodesFields methods"
| "topNodes (StructType flds) = topNodesFields flds"
| "topNodes (BasicLit v) = []"
| "topNodesFields [] = []"
| "topNodesFields (f # fs) = topNodesField f @ topNodesFields fs"
| "topNodesField (Field names t) = map Ident names @ topNodes t"

fun visitNodes :: "'s pre \<Rightarrow> expr list \<Rightarrow> 's \<Rightarrow> error + (expr list \<times> 's)" where
  "visitNodes pre [] s = Inr ([], s)"
| "visitNodes pre (n # ns) s =
     (case pre n s of
        Inl e \<Rightarrow> Inl e
      | Inr (n', s1, d) \<Rightarrow>
          (case visitNodes pre ns s1 of
             Inl e \<Rightarrow> Inl e
           | Inr (ns', s2) \<Rightarrow> Inr (n' # ns', s2)))"

definition stopsAtNames :: "'s pre \<Rightarrow> bool" where
  "stopsAtNames pre \<longleftrightarrow>
     (\<forall>n s n' s' d. pre n s = Inr (n', s', d) \<longrightarrow>
        (if isName n then \<not> d \<and> isName n' else d \<and> n' = n \<and> s' = s))"

text \<open>The member of a selector resolves to an object of the package with the given path.\<close>

definition resolvesInto :: "(ident \<Rightarrow> object option) \<Rightarrow> ident \<Rightarrow> string \<Rightarrow> bool" where
  "resolvesInto uses n path \<longleftrightarrow>
     (case uses n of
        None \<Rightarrow> False
      | Some obj \<Rightarrow> (case ObjPkg obj of None \<Rightarrow> False | Some p \<Rightarrow> Path p = path))"

text \<open>
  The name under which \<^verbatim>\<open>mightAddSelector\<close> spells a package in the concrete file: the
  name of the import found by its loop, the package's own name when the import has no
  name or there is no import.
\<close>

definition aliasInFile :: "concreteType \<Rightarrow> package \<Rightarrow> string" where
  "aliasInFile ct p =
     (case findImport (Path p) (Imports (cfile ct)) of
        Some imp \<Rightarrow> (case ImpName imp of Some a \<Rightarrow> a | None \<Rightarrow> Name p)
      | None \<Rightarrow> Name p)"

text \<open>A callback keeps an invariant of the state when every successful call does.\<close>

definition preserves :: "'s pre \<Rightarrow> ('s \<Rightarrow> bool) \<Rightarrow> bool" where
  "preserves pre I \<longleftrightarrow> (\<forall>n s n' s' d. I s \<longrightarrow> pre n s = Inr (n', s', d) \<longrightarrow> I s')"

section \<open>The snapshot and the protocol\<close>

text \<open>
  The nodes around a diagnostic, as far as the request extractor looks at them. Every
  node carries the values of \<^verbatim>\<open>Pos()\<close> and \<^verbatim>\<open>End()\<close>; \<open>KOther\<close> is any other kind of
  node with its children in the order in which \<^verbatim>\<open>ast.Inspect\<close> visits them.
\<close>

datatype anode = ANode (NPos: nat) (NEnd: nat) (NKind: akind)
and akind =
    KIdent ident
  | KValueSpec "ident list" "anode option" "anode list"
  | KReturnStmt "anode list"
  | KCallExpr anode "anode list"
  | KUnaryExpr string anode
  | KStarExpr anode
  | KMapType anode anode
  | KArrayType "anode option" anode
  | KOther "anode list"

type_synonym position = "nat \<times> nat"

type_synonym range = "position \<times> position"

datatype diagnostic = Diagnostic (Source: string) (Message: string) (DiagRange: range)

datatype fileHandle = FileHandle (URI: string) (Version: nat)

datatype parsedGoFile = ParsedGoFile (PgfURI: string) (PgfFile: astFile)

datatype textEdit = TextEdit range string

text \<open>
  \<^verbatim>\<open>protocol.CodeAction\<close>. Its edit has one \<^verbatim>\<open>TextDocumentEdit\<close>, recorded by the
  version and URI of the document and the text edits.
\<close>

datatype codeAction =
  CodeAction (Title: string) (Diagnostics: "diagnostic list") (Kind: string)
    (EditVersion: nat) (EditURI: string) (Edits: "textEdit list")

datatype packagePolicy = NarrowestPackage | WidestPackage

text \<open>
  What the code asks of its collaborators: the snapshot and its file set, the packages'
  import lookup, go/types (\<^verbatim>\<open>types.Identical\<close>, \<^verbatim>\<open>types.NewMethodSet\<close> read through
  \<^verbatim>\<open>Lookup(ct.pkg, name)\<close>), the position mapper, \<^verbatim>\<open>astutil.PathEnclosingInterval\<close> (on
  the file of the diagnostic for the path; on an interface's file at a method, for the
  type of the field at index 1 of the path; on the concrete file at the type, for the
  offset of the end of the node at index 1; \<open>None\<close> where that index or type assertion
  panics), \<^verbatim>\<open>EnclosingFunction\<close> (the result types of the enclosing function), go/format,
  go/parser, \<^verbatim>\<open>astutil.AddNamedImport\<close> and \<^verbatim>\<open>computeTextEdits\<close>.
\<close>

record snapshot =
  GetParsedFile :: "fileHandle \<Rightarrow> packagePolicy \<Rightarrow> error + (srcPackage \<times> parsedGoFile)"
  FindFile :: "string \<Rightarrow> fileHandle"
  PositionFilename :: "object \<Rightarrow> string"
  GetImport :: "srcPackage \<Rightarrow> string \<Rightarrow> error + srcPackage"
  Identical :: "signature \<Rightarrow> signature \<Rightarrow> bool"
  NewMethodSet :: "gtype \<Rightarrow> string \<Rightarrow> signature option"
  RangeSpan :: "parsedGoFile \<Rightarrow> range \<Rightarrow> error + (nat \<times> nat)"
  SpanRange :: "parsedGoFile \<Rightarrow> nat \<times> nat \<Rightarrow> error + (nat \<times> nat)"
  PathEnclosingInterval :: "astFile \<Rightarrow> nat \<Rightarrow> nat \<Rightarrow> anode list"
  EnclosingFunction :: "anode list \<Rightarrow> srcPackage \<Rightarrow> gtype list option"
  MethodFieldType :: "astFile \<Rightarrow> func \<Rightarrow> expr option"
  DeclEndOffset :: "astFile \<Rightarrow> object \<Rightarrow> nat option"
  FormatNode :: "expr \<Rightarrow> error + string"
  FormatFile :: "astFile \<Rightarrow> error + string"
  ParseFile :: "string \<Rightarrow> string \<Rightarrow> error + astFile"
  AddNamedImport :: "astFile \<Rightarrow> string \<Rightarrow> string \<Rightarrow> astFile"
  ComputeTextEdits :: "parsedGoFile \<Rightarrow> string \<Rightarrow> error + textEdit list"

definition nilDeref :: error where
  "nilDeref = Panic ''invalid memory address or nil pointer dereference''"

text \<open>
  \<^verbatim>\<open>getFile\<close> of stub.go. \<^verbatim>\<open>GetParsedFile\<close> hands back a parsed file whenever it returns
  no error, so the file that \<^verbatim>\<open>getFile\<close> returns is not nil.
\<close>

definition getFile :: "snapshot \<Rightarrow> object \<Rightarrow> error + (astFile \<times> fileHandle)" where
  "getFile snap obj =
     (let objectFH = FindFile snap (PositionFilename snap obj)
      in case GetParsedFile snap objectFH WidestPackage of
           Inl e \<Rightarrow> Inl (Wrapped ''GetParsedFile'' e)
         | Inr (p, goFile) \<Rightarrow> Inr (PgfFile goFile, objectFH))"

section \<open>The missing-method computer\<close>

text \<open>
  \<^verbatim>\<open>missingInterface\<close>. The package is the one \<^verbatim>\<open>missingMethods\<close> was called with; it
  can be nil when the request came from a return statement whose interface package
  could not be looked up.
\<close>

record missingInterface =
  mi_iface :: gtype
  mi_file :: astFile
  mi_pkg :: "srcPackage option"
  mi_missing :: "func list"

text \<open>
  The loop over the explicit methods, the same text in stub.go and impl.go: a method
  that the concrete type has in neither method set and whose name has not been visited
  is recorded and its name visited; a method that the type has with a signature that is
  not identical ends the computation with the mismatch error. \<open>visited\<close> is the Go map
  that all calls of one computation share.
\<close>

fun explicitMethods ::
  "(signature \<Rightarrow> signature \<Rightarrow> bool) \<Rightarrow> concreteType \<Rightarrow> func list \<Rightarrow> func list \<Rightarrow> string set
     \<Rightarrow> error + (func list \<times> string set)" where
  "explicitMethods ident ct [] missing visited = Inr (missing, visited)"
| "explicitMethods ident ct (method # methods) missing visited =
     (case (if doesNotHaveMethod ct (FuncName method) \<and> FuncName method \<notin> visited
            then (missing @ [method], insert (FuncName method) visited)
            else (missing, visited)) of
        (missing', visited') \<Rightarrow>
          (case getMethodSelection ct (FuncName method) of
             None \<Rightarrow> explicitMethods ident ct methods missing' visited'
           | Some implSig \<Rightarrow>
               if \<not> ident (FuncSig method) implSig
               then Inl (MismatchError (FuncName method) implSig (FuncSig method))
               else explicitMethods ident ct methods missing' visited'))"

text \<open>
  \<^verbatim>\<open>missingMethods\<close> of stub.go, with the loop over the embedded interfaces as a function
  of its own. \<^verbatim>\<open>Embedded(i)\<close> is nil for an embedded type that is not named, and
  \<^verbatim>\<open>Pkg()\<close> is nil for a universe type; both are dereferenced. The file of the
  interface comes from \<open>getFile\<close> and is not nil, so the check \<^verbatim>\<open>mi.file == nil\<close>, which
  impl.go needs for its own \<^verbatim>\<open>getFile\<close>, does not fire here.
\<close>

function missingMethods ::
    "snapshot \<Rightarrow> concreteType \<Rightarrow> object \<Rightarrow> srcPackage option \<Rightarrow> string set
       \<Rightarrow> error + (missingInterface list \<times> string set)"
  and missingEmbedded ::
    "snapshot \<Rightarrow> concreteType \<Rightarrow> srcPackage option \<Rightarrow> gtype list \<Rightarrow> missingInterface list \<Rightarrow> string set
       \<Rightarrow> error + (missingInterface list \<times> string set)"
where
  "missingMethods snap ct ifaceObj ifacePkg visited =
     (case Underlying (ObjType ifaceObj) of
        Interface es ms \<Rightarrow>
          (case missingEmbedded snap ct ifacePkg es [] visited of
             Inl e \<Rightarrow> Inl e
           | Inr (missing, visited1) \<Rightarrow>
               (case getFile snap ifaceObj of
                  Inl e \<Rightarrow> Inl (Wrapped ''error getting iface file'' e)
                | Inr (astFile, fh) \<Rightarrow>
                    (case explicitMethods (Identical snap) ct ms [] visited1 of
                       Inl e \<Rightarrow> Inl e
                     | Inr (mmissing, visited2) \<Rightarrow>
                         Inr (if mmissing \<noteq> []
                              then missing @ [\<lparr>mi_iface = Interface es ms, mi_file = astFile,
                                                mi_pkg = ifacePkg, mi_missing = mmissing\<rparr>]
                              else missing,
                              visited2))))
      | _ \<Rightarrow> Inl (Errorf ''expected an interface''))"
| "missingEmbedded snap ct ifacePkg [] missing visited = Inr (missing, visited)"
| "missingEmbedded snap ct ifacePkg (e # es) missing visited =
     (case e of
        Named n (Some ep) u \<Rightarrow>
          (case ifacePkg of
             None \<Rightarrow> Inl nilDeref
           | Some ip \<Rightarrow>
               (case (if Path ep \<noteq> PkgPath ip then GetImport snap ip (Path ep) else Inr ip) of
                  Inl err \<Rightarrow> Inl err
                | Inr depPkg \<Rightarrow>
                    (case missingMethods snap ct (Object TypeNameObj n (Some ep) (Named n (Some ep) u))
                            (Some depPkg) visited of
                       Inl err \<Rightarrow> Inl err
                     | Inr (em, visited1) \<Rightarrow>
                         missingEmbedded snap ct ifacePkg es (missing @ em) visited1)))
      | _ \<Rightarrow> Inl nilDeref)"
  by pat_completeness auto
termination
proof (relation "measure (\<lambda>x. case x of
          Inl (snap, ct, obj, ip, vis) \<Rightarrow> 2 * size (ObjType obj) + 1
        | Inr (snap, ct, ip, es, missing, vis) \<Rightarrow> 2 * size_list size es)")
  show "wf (measure (\<lambda>x. case x of
          Inl (snap, ct, obj, ip, vis) \<Rightarrow> 2 * size (ObjType obj) + 1
        | Inr (snap, ct, ip, es, missing, vis) \<Rightarrow> 2 * size_list size es))"
    by simp
next
  fix snap :: snapshot and ct :: concreteType and ifaceObj :: object
    and ifacePkg :: "srcPackage option" and visited :: "string set" and es ms
  assume "Underlying (ObjType ifaceObj) = Interface es ms"
  then have "size_list size es < size (ObjType ifaceObj)"
    by (cases "ObjType ifaceObj") auto
  then show "(Inr (snap, ct, ifacePkg, es, [], visited), Inl (snap, ct, ifaceObj, ifacePkg, visited))
      \<in> measure (\<lambda>x. case x of
          Inl (snap, ct, obj, ip, vis) \<Rightarrow> 2 * size (ObjType obj) + 1
        | Inr (snap, ct, ip, es, missing, vis) \<Rightarrow> 2 * size_list size es)"
    by simp
qed auto

text \<open>
  The methods that an interface type requires: the explicit methods of the interface
  and of every interface it embeds, in the order of the traversal.
\<close>

fun requiredOf :: "gtype \<Rightarrow> func list"
  and requiredOfList :: "gtype list \<Rightarrow> func list"
where
  "requiredOf (Named n p (Interface es ms)) = requiredOfList es @ ms"
| "requiredOf (Interface es ms) = requiredOfList es @ ms"
| "requiredOf t = []"
| "requiredOfList [] = []"
| "requiredOfList (e # es) = requiredOf e @ requiredOfList es"

definition missingNames :: "missingInterface list \<Rightarrow> string list" where
  "missingNames ms = concat (map (\<lambda>mi. map FuncName (mi_missing mi)) ms)"

section \<open>The request extractor\<close>

text \<open>
  \<^verbatim>\<open>stubRequest\<close>. The interface package is nil when the request comes from a return
  statement and the import lookup for the interface's package fails, because
  \<^verbatim>\<open>getRequestFromReturn\<close> drops that error.
\<close>

record stubRequest =
  ir_ifacePkg :: "srcPackage option"
  ir_ifaceObj :: object
  ir_concretePkg :: "srcPackage option"
  ir_concreteObj :: object
  ir_pointer :: bool

text \<open>
  \<^verbatim>\<open>ast.Inspect\<close>: the function is called on a node before its children, which are skipped
  when it returns false. The function may change the variables it has captured (the
  state) and may panic. The closing call on nil changes nothing in the closures below.
\<close>

definition identNode :: "ident \<Rightarrow> anode" where
  "identNode i = ANode (NamePos i) (NamePos i + length (IdName i)) (KIdent i)"

fun inspectIdents :: "(anode \<Rightarrow> 'st \<Rightarrow> error + ('st \<times> bool)) \<Rightarrow> ident list \<Rightarrow> 'st \<Rightarrow> error + 'st" where
  "inspectIdents f [] st = Inr st"
| "inspectIdents f (i # is) st =
     (case f (identNode i) st of
        Inl e \<Rightarrow> Inl e
      | Inr (st1, descend) \<Rightarrow> inspectIdents f is st1)"

fun inspect :: "(anode \<Rightarrow> 'st \<Rightarrow> error + ('st \<times> bool)) \<Rightarrow> anode \<Rightarrow> 'st \<Rightarrow> error + 'st"
  and inspectKind :: "(anode \<Rightarrow> 'st \<Rightarrow> error + ('st \<times> bool)) \<Rightarrow> akind \<Rightarrow> 'st \<Rightarrow> error + 'st"
  and inspectList :: "(anode \<Rightarrow> 'st \<Rightarrow> error + ('st \<times> bool)) \<Rightarrow> anode list \<Rightarrow> 'st \<Rightarrow> error + 'st"
where
  "inspect f (ANode p e k) st =
     (case f (ANode p e k) st of
        Inl err \<Rightarrow> Inl err
      | Inr (st1, descend) \<Rightarrow> if descend then inspectKind f k st1 else Inr st1)"
| "inspectKind f (KIdent i) st = Inr st"
| "inspectKind f (KValueSpec names None vals) st =
     (case inspectIdents f names st of Inl err \<Rightarrow> Inl err | Inr st1 \<Rightarrow> inspectList f vals st1)"
| "inspectKind f (KValueSpec names (Some t) vals) st =
     (case inspectIdents f names st of
        Inl err \<Rightarrow> Inl err
      | Inr st1 \<Rightarrow>
          (case inspect f t st1 of Inl err \<Rightarrow> Inl err | Inr st2 \<Rightarrow> inspectList f vals st2))"
| "inspectKind f (KReturnStmt results) st = inspectList f results st"
| "inspectKind f (KCallExpr fn args) st =
     (case inspect f fn st of Inl err \<Rightarrow> Inl err | Inr st1 \<Rightarrow> inspectList f args st1)"
| "inspectKind f (KUnaryExpr op x) st = inspect f x st"
| "inspectKind f (KStarExpr x) st = inspect f x st"
| "inspectKind f (KMapType k v) st =
     (case inspect f k st of Inl err \<Rightarrow> Inl err | Inr st1 \<Rightarrow> inspect f v st1)"
| "inspectKind f (KArrayType None elt) st = inspect f elt st"
| "inspectKind f (KArrayType (Some len) elt) st =
     (case inspect f len st of Inl err \<Rightarrow> Inl err | Inr st1 \<Rightarrow> inspect f elt st1)"
| "inspectKind f (KOther children) st = inspectList f children st"
| "inspectList f [] st = Inr st"
| "inspectList f (n # ns) st =
     (case inspect f n st of Inl err \<Rightarrow> Inl err | Inr st1 \<Rightarrow> inspectList f ns st1)"

fun isVariableDeclaration :: "anode list \<Rightarrow> (ident list \<times> anode option \<times> anode list) option" where
  "isVariableDeclaration [] = None"
| "isVariableDeclaration (n # ns) =
     (case NKind n of
        KValueSpec names t vals \<Rightarrow> Some (names, t, vals)
      | _ \<Rightarrow> isVariableDeclaration ns)"

fun isReturnStatement :: "anode list \<Rightarrow> anode option" where
  "isReturnStatement [] = None"
| "isReturnStatement (n # ns) =
     (case NKind n of
        KReturnStmt results \<Rightarrow> Some n
      | _ \<Rightarrow> isReturnStatement ns)"

text \<open>The results of a return statement.\<close>

definition Results :: "anode \<Rightarrow> anode list" where
  "Results rs = (case NKind rs of KReturnStmt results \<Rightarrow> results | _ \<Rightarrow> [])"

fun findIndex :: "anode list \<Rightarrow> nat \<Rightarrow> nat \<Rightarrow> nat option" where
  "findIndex [] pos idx = None"
| "findIndex (r # rs) pos idx =
     (if pos \<ge> NPos r \<and> pos \<le> NEnd r then Some idx else findIndex rs pos (idx + 1))"

definition getReturnIndex :: "anode \<Rightarrow> nat \<Rightarrow> error + nat" where
  "getReturnIndex rs pos =
     (case findIndex (Results rs) pos 0 of
        Some idx \<Rightarrow> Inr idx
      | None \<Rightarrow> Inl (Errorf ''pos not within return statement bounds''))"

text \<open>
  The function that \<^verbatim>\<open>getRequestFromReturn\<close> inspects the result expression with. Its
  state is the request found so far. The package of the object is dereferenced before
  the object is known to be a type name.
\<close>

definition returnVisitor ::
  "snapshot \<Rightarrow> srcPackage \<Rightarrow> anode \<Rightarrow> (object \<times> srcPackage) option
     \<Rightarrow> error + ((object \<times> srcPackage) option \<times> bool)" where
  "returnVisitor snap spkg n ir =
     (case NKind n of
        KIdent ident \<Rightarrow>
          (case Uses spkg ident of
             None \<Rightarrow> Inr (ir, True)
           | Some obj \<Rightarrow>
               (case ObjPkg obj of
                  None \<Rightarrow> Inl nilDeref
                | Some op \<Rightarrow>
                    (case (if Path op \<noteq> PkgPath spkg then GetImport snap spkg (Path op) else Inr spkg) of
                       Inl err \<Rightarrow> Inr (ir, True)
                     | Inr concretePkg \<Rightarrow>
                         if ObjKind obj = TypeNameObj then Inr (Some (obj, concretePkg), False)
                         else Inr (ir, True))))
      | _ \<Rightarrow> Inr (ir, True))"

definition getRequestFromReturn ::
  "snapshot \<Rightarrow> nat \<Rightarrow> anode list \<Rightarrow> anode \<Rightarrow> srcPackage \<Rightarrow> error + stubRequest option" where
  "getRequestFromReturn snap pos path rs spkg =
     (case getReturnIndex rs pos of
        Inl err \<Rightarrow> Inl err
      | Inr idx \<Rightarrow>
          (let n = Results rs ! idx
           in case NKind n of
                KMapType k v \<Rightarrow> Inr None
              | KArrayType len elt \<Rightarrow> Inr None
              | _ \<Rightarrow>
                  (case inspect (returnVisitor snap spkg) n None of
                     Inl err \<Rightarrow> Inl err
                   | Inr None \<Rightarrow> Inr None
                   | Inr (Some (concreteObj, concretePkg)) \<Rightarrow>
                       (case EnclosingFunction snap path spkg of
                          None \<Rightarrow> Inl (Errorf ''could not find function in a return statement'')
                        | Some results \<Rightarrow>
                            if idx \<ge> length results then Inl (Panic ''index out of range'')
                            else (case results ! idx of
                                    Named tn tp u \<Rightarrow>
                                      (case tp of
                                         None \<Rightarrow> Inl nilDeref
                                       | Some ip \<Rightarrow>
                                           Inr (Some \<lparr>ir_ifacePkg =
                                                  (if PkgPath spkg \<noteq> Path ip
                                                   then (case GetImport snap spkg (Path ip) of
                                                           Inl err \<Rightarrow> None
                                                         | Inr p \<Rightarrow> Some p)
                                                   else Some spkg),
                                                ir_ifaceObj = Object TypeNameObj tn tp (Named tn tp u),
                                                ir_concretePkg = Some concretePkg,
                                                ir_concreteObj = concreteObj,
                                                ir_pointer = False\<rparr>))
                                  | _ \<Rightarrow> Inr None)))))"

text \<open>
  The function \<^verbatim>\<open>inspectNode\<close> of \<^verbatim>\<open>fromValueSpec\<close>; its state is the pair of the
  captured results. A failed import lookup leaves the object and sets the package to
  nil.
\<close>

definition valueVisitor ::
  "snapshot \<Rightarrow> srcPackage \<Rightarrow> anode \<Rightarrow> object option \<times> srcPackage option
     \<Rightarrow> error + ((object option \<times> srcPackage option) \<times> bool)" where
  "valueVisitor snap spkg n st =
     (case NKind n of
        KIdent ident \<Rightarrow>
          (case Uses spkg ident of
             None \<Rightarrow> Inr (st, True)
           | Some obj \<Rightarrow>
               if ObjKind obj \<noteq> TypeNameObj then Inr (st, True)
               else (case ObjPkg obj of
                       None \<Rightarrow> Inl nilDeref
                     | Some op \<Rightarrow>
                         if Path op \<noteq> PkgPath spkg
                         then (case GetImport snap spkg (Path op) of
                                 Inl err \<Rightarrow> Inr ((fst st, None), True)
                               | Inr p \<Rightarrow> Inr ((Some obj, Some p), False))
                         else Inr ((Some obj, Some spkg), False)))
      | _ \<Rightarrow> Inr (st, True))"

definition inspectNode ::
  "snapshot \<Rightarrow> srcPackage \<Rightarrow> anode option \<Rightarrow> error + (object option \<times> srcPackage option)" where
  "inspectNode snap spkg n =
     (case n of
        None \<Rightarrow> Inl (Panic ''ast.Walk: unexpected node type <nil>'')
      | Some m \<Rightarrow> inspect (valueVisitor snap spkg) m (None, None))"

definition pointerVisitor :: "anode \<Rightarrow> bool \<Rightarrow> error + (bool \<times> bool)" where
  "pointerVisitor n pointer =
     (case NKind n of
        KUnaryExpr op x \<Rightarrow> if op = ''&'' then Inr (True, False) else Inr (pointer, True)
      | KStarExpr x \<Rightarrow> Inr (True, False)
      | _ \<Rightarrow> Inr (pointer, True))"

definition fromValueSpec ::
  "snapshot \<Rightarrow> ident list \<times> anode option \<times> anode list \<Rightarrow> srcPackage \<Rightarrow> nat \<Rightarrow> error + stubRequest option" where
  "fromValueSpec snap vs spkg pos =
     (case vs of
        (names, vtype, vals) \<Rightarrow>
          (let idx = (case findIndex vals pos 0 of Some i \<Rightarrow> i | None \<Rightarrow> 0)
           in if idx \<ge> length vals then Inl (Panic ''index out of range'')
              else
                (let valueNode = vals ! idx;
                     ifaceNode = (case vtype of
                                    Some t \<Rightarrow> Some t
                                  | None \<Rightarrow> (case NKind valueNode of
                                               KCallExpr fn args \<Rightarrow> Some fn
                                             | _ \<Rightarrow> None))
                 in case inspectNode snap spkg ifaceNode of
                      Inl err \<Rightarrow> Inl err
                    | Inr (Some ifaceObj, Some ifacePkg) \<Rightarrow>
                        (case inspectNode snap spkg (Some valueNode) of
                           Inl err \<Rightarrow> Inl err
                         | Inr (Some concreteObj, Some concretePkg) \<Rightarrow>
                             (case inspect pointerVisitor valueNode False of
                                Inl err \<Rightarrow> Inl err
                              | Inr pointer \<Rightarrow>
                                  Inr (Some \<lparr>ir_ifacePkg = Some ifacePkg, ir_ifaceObj = ifaceObj,
                                             ir_concretePkg = Some concretePkg,
                                             ir_concreteObj = concreteObj,
                                             ir_pointer = pointer\<rparr>))
                         | Inr other \<Rightarrow> Inr None)
                    | Inr other \<Rightarrow> Inr None)))"

text \<open>
  \<^verbatim>\<open>getImplementRequest\<close> returns a request or nil. The error that
  \<^verbatim>\<open>getRequestFromReturn\<close> returns is assigned to the blank identifier; a panic is not a
  returned value and unwinds through the caller.
\<close>

definition getImplementRequest ::
  "snapshot \<Rightarrow> anode list \<Rightarrow> srcPackage \<Rightarrow> nat \<Rightarrow> error + stubRequest option" where
  "getImplementRequest snap nodes spkg pos =
     (case isVariableDeclaration nodes of
        Some vs \<Rightarrow> fromValueSpec snap vs spkg pos
      | None \<Rightarrow>
          (case isReturnStatement nodes of
             Some ret \<Rightarrow>
               (case getRequestFromReturn snap pos nodes ret spkg of
                  Inl (Panic msg) \<Rightarrow> Inl (Panic msg)
                | Inl err \<Rightarrow> Inr None
                | Inr ir \<Rightarrow> Inr ir)
           | None \<Rightarrow> Inr None))"

section \<open>The code action\<close>

text \<open>\<^verbatim>\<open>strings.HasPrefix\<close> and \<^verbatim>\<open>strings.Contains\<close>.\<close>

fun hasPrefix :: "string \<Rightarrow> string \<Rightarrow> bool" where
  "hasPrefix s [] = True"
| "hasPrefix [] (p # ps) = False"
| "hasPrefix (c # s) (p # ps) = (c = p \<and> hasPrefix s ps)"

fun contains :: "string \<Rightarrow> string \<Rightarrow> bool" where
  "contains [] sub = (sub = [])"
| "contains (c # s) sub = (hasPrefix (c # s) sub \<or> contains s sub)"

definition trimPrefix :: "string \<Rightarrow> string \<Rightarrow> string" where
  "trimPrefix s prefix = (if hasPrefix s prefix then drop (length prefix) s else s)"

definition isMissingMethodErr :: "diagnostic \<Rightarrow> bool" where
  "isMissingMethodErr d \<longleftrightarrow> Source d = ''compiler'' \<and> contains (Message d) ''missing method''"

definition isConversionErr :: "diagnostic \<Rightarrow> bool" where
  "isConversionErr d \<longleftrightarrow> Source d = ''compiler'' \<and> hasPrefix (Message d) ''cannot convert''"

text \<open>
  \<^verbatim>\<open>getIfaceName\<close>. Its first argument is the package of the file in which the
  diagnostic was reported, the second the interface's package, nil when the request
  extractor could not look it up.
\<close>

definition getIfaceName :: "srcPackage \<Rightarrow> srcPackage option \<Rightarrow> object \<Rightarrow> error + string" where
  "getIfaceName spkg ifacePkg ifaceObj =
     (case ifacePkg of
        None \<Rightarrow> Inl nilDeref
      | Some ip \<Rightarrow>
          if PkgPath spkg = PkgPath ip then Inr (ObjName ifaceObj)
          else Inr (PkgName ip @ ''.'' @ ObjName ifaceObj))"

definition getNodes :: "snapshot \<Rightarrow> parsedGoFile \<Rightarrow> diagnostic \<Rightarrow> error + (anode list \<times> nat)" where
  "getNodes snap pgf d =
     (case RangeSpan snap pgf (DiagRange d) of
        Inl err \<Rightarrow> Inl err
      | Inr spn \<Rightarrow>
          (case SpanRange snap pgf spn of
             Inl err \<Rightarrow> Inl err
           | Inr (rstart, rend) \<Rightarrow>
               Inr (PathEnclosingInterval snap (PgfFile pgf) rstart rend, rstart)))"

text \<open>\<^verbatim>\<open>methodData\<close> and the template \<^verbatim>\<open>tmpl\<close> of stub.go, executed on it.\<close>

datatype methodData =
  MethodData (MdMethod: string) (MdInterface: string) (MdConcrete: string) (MdSignature: string)

definition newline :: string where "newline = [CHR 0x0A]"

definition executeTmpl :: "methodData \<Rightarrow> string" where
  "executeTmpl md =
     ''// '' @ MdMethod md @ '' implements '' @ MdInterface md @ newline
     @ ''func ('' @ MdConcrete md @ '') '' @ MdMethod md @ MdSignature md @ '' {'' @ newline
     @ [CHR 0x09] @ ''panic('' @ [CHR 0x22] @ ''unimplemented'' @ [CHR 0x22] @ '')'' @ newline
     @ ''}'' @ newline"

text \<open>
  The function literal handed to \<^verbatim>\<open>astutil.Apply\<close>, with the packages as the request
  and the missing interface carry them: a nil package is dereferenced by the first
  call that asks for its type information, \<^verbatim>\<open>mi.pkg\<close> at a selector and
  \<^verbatim>\<open>ir.ifacePkg\<close> at an identifier.
\<close>

definition stubCallback ::
  "srcPackage option \<Rightarrow> srcPackage option \<Rightarrow> expr \<Rightarrow> concreteType
     \<Rightarrow> error + (expr \<times> concreteType \<times> bool)" where
  "stubCallback miPkg ifacePkg n ct =
     (case n of
        SelectorExpr x sel \<Rightarrow>
          (case miPkg of None \<Rightarrow> Inl nilDeref | Some mp \<Rightarrow> rewriteNode mp mp n ct)
      | Ident ident \<Rightarrow>
          (case ifacePkg of None \<Rightarrow> Inl nilDeref | Some ip \<Rightarrow> rewriteNode ip ip n ct)
      | _ \<Rightarrow> Inr (n, ct, True))"

text \<open>
  One turn of the inner loop of \<^verbatim>\<open>MethodStubActions\<close>: the stub of one missing method is
  appended to the buffer, and the concrete type collects the imports.
\<close>

definition renderMethod ::
  "snapshot \<Rightarrow> srcPackage \<Rightarrow> stubRequest \<Rightarrow> missingInterface \<Rightarrow> func \<Rightarrow> string \<times> concreteType
     \<Rightarrow> error + (string \<times> concreteType)" where
  "renderMethod snap spkg ir mi m st =
     (case st of
        (methodsBuffer, ct) \<Rightarrow>
          (case MethodFieldType snap (mi_file mi) m of
             None \<Rightarrow> Inl (Panic ''index out of range or interface conversion'')
           | Some n \<Rightarrow>
               (case applyExpr (stubCallback (mi_pkg mi) (ir_ifacePkg ir)) n ct of
                  Inl err \<Rightarrow> Inl err
                | Inr (n', ct') \<Rightarrow>
                    (case FormatNode snap n' of
                       Inl err \<Rightarrow> Inl (Wrapped ''could not format function signature'' err)
                     | Inr sig \<Rightarrow>
                         (case getIfaceName spkg (ir_ifacePkg ir) (ir_ifaceObj ir) of
                            Inl err \<Rightarrow> Inl err
                          | Inr iname \<Rightarrow>
                              (let concrete = (if ir_pointer ir
                                               then ''*'' @ ObjName (ir_concreteObj ir)
                                               else ObjName (ir_concreteObj ir));
                                   md = MethodData (FuncName m) iname concrete (trimPrefix sig ''func'')
                               in Inr (methodsBuffer @ executeTmpl md @ newline, ct')))))))"

fun renderMethods ::
  "snapshot \<Rightarrow> srcPackage \<Rightarrow> stubRequest \<Rightarrow> missingInterface \<Rightarrow> func list \<Rightarrow> string \<times> concreteType
     \<Rightarrow> error + (string \<times> concreteType)" where
  "renderMethods snap spkg ir mi [] st = Inr st"
| "renderMethods snap spkg ir mi (m # ms) st =
     (case renderMethod snap spkg ir mi m st of
        Inl err \<Rightarrow> Inl err
      | Inr st1 \<Rightarrow> renderMethods snap spkg ir mi ms st1)"

fun renderMissing ::
  "snapshot \<Rightarrow> srcPackage \<Rightarrow> stubRequest \<Rightarrow> missingInterface list \<Rightarrow> string \<times> concreteType
     \<Rightarrow> error + (string \<times> concreteType)" where
  "renderMissing snap spkg ir [] st = Inr st"
| "renderMissing snap spkg ir (mi # mis) st =
     (case renderMethods snap spkg ir mi (mi_missing mi) st of
        Inl err \<Rightarrow> Inl err
      | Inr st1 \<Rightarrow> renderMissing snap spkg ir mis st1)"

text \<open>
  The rest of the loop body: the stubs are spliced into the formatted concrete file
  after the declaration of the type, the text is parsed again, the queued imports are
  added, and the difference to the file is the edit of the code action.
\<close>

definition buildAction ::
  "snapshot \<Rightarrow> srcPackage \<Rightarrow> diagnostic \<Rightarrow> stubRequest \<Rightarrow> astFile \<Rightarrow> fileHandle \<Rightarrow> string \<times> concreteType
     \<Rightarrow> error + codeAction" where
  "buildAction snap spkg d ir concreteFile concreteFH st =
     (case st of
        (methodsBuffer, ct) \<Rightarrow>
          (case FormatFile snap concreteFile of
             Inl err \<Rightarrow> Inl (Wrapped ''error formatting concrete file'' err)
           | Inr concreteSrc \<Rightarrow>
               (case DeclEndOffset snap concreteFile (ir_concreteObj ir) of
                  None \<Rightarrow> Inl (Panic ''index out of range'')
                | Some insertPos \<Rightarrow>
                    if insertPos > length concreteSrc then Inl (Panic ''slice bounds out of range'')
                    else
                      (case ParseFile snap (FileName concreteFile)
                              (take insertPos concreteSrc @ newline @ methodsBuffer
                               @ drop insertPos concreteSrc) of
                         Inl err \<Rightarrow> Inl (Wrapped ''could not reparse file'' err)
                       | Inr newF \<Rightarrow>
                           (case FormatFile snap
                                   (foldl (\<lambda>f imp. AddNamedImport snap f (AddName imp) (AddPath imp))
                                      newF (addedImports ct)) of
                              Inl err \<Rightarrow> Inl (Wrapped ''format.Node'' err)
                            | Inr source \<Rightarrow>
                                (case GetParsedFile snap concreteFH NarrowestPackage of
                                   Inl err \<Rightarrow> Inl (Wrapped ''GetParsedFile(concrete)'' err)
                                 | Inr (p, pgf) \<Rightarrow>
                                     (case ComputeTextEdits snap pgf source of
                                        Inl err \<Rightarrow> Inl (Wrapped ''computeTextEdit'' err)
                                      | Inr edits \<Rightarrow>
                                          (case getIfaceName spkg (ir_ifacePkg ir) (ir_ifaceObj ir) of
                                             Inl err \<Rightarrow> Inl err
                                           | Inr iname \<Rightarrow>
                                               Inr (CodeAction (''Implement '' @ iname) [d] ''quickfix''
                                                      (Version concreteFH) (URI concreteFH) edits)))))))))"

text \<open>
  The body of the loop over the diagnostics and what it does to the loop: go on with
  the next diagnostic, return an error, return \<^verbatim>\<open>nil, nil\<close>, or append an action.
  \<open>prepareRequest\<close> is the body as far as the making of the concrete type: it ends the
  turn, or yields the package of the file, the request, the concrete file with its
  handle and the concrete type. The package of the concrete object has been
  dereferenced by the request extractor before the request is returned.
\<close>

datatype step = Continue | ReturnErr error | ReturnNil | Append codeAction

definition prepareRequest ::
  "snapshot \<Rightarrow> fileHandle \<Rightarrow> diagnostic
     \<Rightarrow> step + (srcPackage \<times> stubRequest \<times> astFile \<times> fileHandle \<times> concreteType)" where
  "prepareRequest snap fh d =
     (if \<not> isMissingMethodErr d \<and> \<not> isConversionErr d then Inl Continue
      else
        (case GetParsedFile snap fh NarrowestPackage of
           Inl err \<Rightarrow> Inl (ReturnErr (Wrapped ''GetParsedFile'' err))
         | Inr (spkg, pgf) \<Rightarrow>
             (case getNodes snap pgf d of
                Inl err \<Rightarrow> Inl (ReturnErr (Wrapped ''getNodes'' err))
              | Inr (nodes, pos) \<Rightarrow>
                  (case getImplementRequest snap nodes spkg pos of
                     Inl err \<Rightarrow> Inl (ReturnErr err)
                   | Inr None \<Rightarrow> Inl Continue
                   | Inr (Some ir) \<Rightarrow>
                       (case getFile snap (ir_concreteObj ir) of
                          Inl err \<Rightarrow> Inl (ReturnErr (Wrapped ''getFile(concrete)'' err))
                        | Inr (concreteFile, concreteFH) \<Rightarrow>
                            (case ObjPkg (ir_concreteObj ir) of
                               None \<Rightarrow> Inl (ReturnErr nilDeref)
                             | Some cp \<Rightarrow>
                                 Inr (spkg, ir, concreteFile, concreteFH,
                                      \<lparr>pkg = cp, cfile = concreteFile,
                                        tms = NewMethodSet snap (ObjType (ir_concreteObj ir)),
                                        pms = NewMethodSet snap (Pointer (ObjType (ir_concreteObj ir))),
                                        addedImports = []\<rparr>)))))))"

definition stubAction :: "snapshot \<Rightarrow> fileHandle \<Rightarrow> diagnostic \<Rightarrow> step" where
  "stubAction snap fh d =
     (case prepareRequest snap fh d of
        Inl st \<Rightarrow> st
      | Inr (spkg, ir, concreteFile, concreteFH, ct) \<Rightarrow>
          (case missingMethods snap ct (ir_ifaceObj ir) (ir_ifacePkg ir) {} of
             Inl err \<Rightarrow> ReturnErr (Wrapped ''missingMethods'' err)
           | Inr (missing, visited) \<Rightarrow>
               if length missing = 0 then ReturnNil
               else
                 (case renderMissing snap spkg ir missing ([], ct) of
                    Inl err \<Rightarrow> ReturnErr err
                  | Inr st \<Rightarrow>
                      (case buildAction snap spkg d ir concreteFile concreteFH st of
                         Inl err \<Rightarrow> ReturnErr err
                       | Inr action \<Rightarrow> Append action))))"

text \<open>
  \<^verbatim>\<open>MethodStubActions\<close>: \<open>Inl err\<close> is \<^verbatim>\<open>nil, err\<close>, \<open>Inr None\<close> is \<^verbatim>\<open>nil, nil\<close>, and
  \<open>Inr (Some actions)\<close> is the slice of actions with a nil error.
\<close>

fun stubLoop ::
  "snapshot \<Rightarrow> fileHandle \<Rightarrow> diagnostic list \<Rightarrow> codeAction list \<Rightarrow> error + codeAction list option" where
  "stubLoop snap fh [] actions = Inr (Some actions)"
| "stubLoop snap fh (d # ds) actions =
     (case stubAction snap fh d of
        Continue \<Rightarrow> stubLoop snap fh ds actions
      | ReturnErr err \<Rightarrow> Inl err
      | ReturnNil \<Rightarrow> Inr None
      | Append action \<Rightarrow> stubLoop snap fh ds (actions @ [action]))"

definition MethodStubActions ::
  "diagnostic list \<Rightarrow> snapshot \<Rightarrow> fileHandle \<Rightarrow> error + codeAction list option" where
  "MethodStubActions diagnostics snap fh = stubLoop snap fh diagnostics []"

text \<open>The actions that a call hands to its caller.\<close>

definition actionsOf :: "error + codeAction list option \<Rightarrow> codeAction list" where
  "actionsOf r = (case r of Inr (Some actions) \<Rightarrow> actions | _ \<Rightarrow> [])"

text \<open>
  What impl.go puts into its template: the receiver is always a pointer, and the
  interface is the target name that \<^verbatim>\<open>Implement\<close> was called with.
\<close>

datatype methodData_impl =
  MethodData_impl (MdName: string) (MdInterface_impl: string) (MdImplementer: string)
    (MdSignature_impl: string)

definition executeTmpl_impl :: "methodData_impl \<Rightarrow> string" where
  "executeTmpl_impl md =
     ''// '' @ MdName md @ '' implements '' @ MdInterface_impl md @ newline
     @ ''func (*'' @ MdImplementer md @ '') '' @ MdName md @ MdSignature_impl md @ '' {'' @ newline
     @ [CHR 0x09] @ ''panic('' @ [CHR 0x22] @ ''unimplemented'' @ [CHR 0x22] @ '')'' @ newline
     @ ''}'' @ newline"

text \<open>
  What one traversal records, as a relation between the set of visited names before and
  after it: the names recorded are pairwise different and were not visited before, they
  are exactly the names of the required methods that the concrete type lacks and that
  were not visited before, the visited names grow by them, and every required method
  that the concrete type has was found with an identical signature.
\<close>

definition recorded ::
  "concreteType \<Rightarrow> (signature \<Rightarrow> signature \<Rightarrow> bool) \<Rightarrow> func list \<Rightarrow> string set \<Rightarrow> string list \<Rightarrow> string set \<Rightarrow> bool" where
  "recorded ct idn req V names V' \<longleftrightarrow>
     distinct names \<and> set names \<inter> V = {} \<and> V' = V \<union> set names
     \<and> set names = {n \<in> FuncName ` set req. doesNotHaveMethod ct n} - V
     \<and> (\<forall>m \<in> set req. \<forall>h. getMethodSelection ct (FuncName m) = Some h \<longrightarrow> idn (FuncSig m) h)"

(*DEFS-END*)

section \<open>Worked example\<close>

text \<open>
  An interface file of package \<^verbatim>\<open>example.com/p\<close> that imports \<^verbatim>\<open>example.com/models\<close>
  plainly, \<^verbatim>\<open>time\<close> with a dot and the concrete type's package \<^verbatim>\<open>example.com/q\<close>,
  and declares \<^verbatim>\<open>Node\<close>. The method signature is
  \<^verbatim>\<open>func(u *models.User, t Time, n *Node, x q.T) error\<close>. The concrete file of package
  \<^verbatim>\<open>example.com/q\<close> imports \<^verbatim>\<open>m "example.com/models"\<close> and \<^verbatim>\<open>_ "time"\<close>.
\<close>

definition pkgP :: package where "pkgP = Package ''example.com/p'' ''p''"
definition pkgQ :: package where "pkgQ = Package ''example.com/q'' ''q''"
definition pkgModels :: package where "pkgModels = Package ''example.com/models'' ''models''"
definition pkgTime :: package where "pkgTime = Package ''time'' ''time''"

definition exUses :: "ident \<Rightarrow> object option" where
  "exUses = map_of
     [(MkIdent 10 ''models'', Object (PkgNameObj pkgModels) ''models'' (Some pkgP) (Basic ''invalid type'')),
      (MkIdent 17 ''User'', Object TypeNameObj ''User'' (Some pkgModels) (Named ''User'' (Some pkgModels) (Basic ''int''))),
      (MkIdent 30 ''Time'', Object TypeNameObj ''Time'' (Some pkgTime) (Named ''Time'' (Some pkgTime) (Basic ''int''))),
      (MkIdent 40 ''Node'', Object TypeNameObj ''Node'' (Some pkgP) (Named ''Node'' (Some pkgP) (Basic ''int''))),
      (MkIdent 50 ''q'', Object (PkgNameObj pkgQ) ''q'' (Some pkgP) (Basic ''invalid type'')),
      (MkIdent 52 ''T'', Object TypeNameObj ''T'' (Some pkgQ) (Named ''T'' (Some pkgQ) (Basic ''int''))),
      (MkIdent 60 ''error'', Object TypeNameObj ''error'' None
         (Named ''error'' None (Interface [] [Func ''Error'' (Signature [] [Basic ''string''] False)])))]"

definition exIfacePkg :: srcPackage where
  "exIfacePkg = \<lparr>PkgPath = ''example.com/p'', PkgName = ''p'', Uses = exUses\<rparr>"

definition exCt :: concreteType where
  "exCt = \<lparr>pkg = pkgQ,
           cfile = AstFile ''q'' [ImportSpec (Some ''m'') ''example.com/models'', ImportSpec (Some ''_'') ''time'']
                   ''type C struct{}'',
           tms = Map.empty, pms = Map.empty, addedImports = []\<rparr>"

definition exSig :: expr where
  "exSig = FuncType
     [Field [MkIdent 5 ''u''] (StarExpr (SelectorExpr (Ident (MkIdent 10 ''models'')) (MkIdent 17 ''User''))),
      Field [MkIdent 25 ''t''] (Ident (MkIdent 30 ''Time'')),
      Field [MkIdent 35 ''n''] (StarExpr (Ident (MkIdent 40 ''Node''))),
      Field [MkIdent 45 ''x''] (SelectorExpr (Ident (MkIdent 50 ''q'')) (MkIdent 52 ''T''))]
     [Field [] (Ident (MkIdent 60 ''error''))]"

text \<open>The expected result: \<^verbatim>\<open>func(u *m.User, t time.Time, n *p.Node, x T) error\<close>.\<close>

definition exSig' :: expr where
  "exSig' = FuncType
     [Field [MkIdent 5 ''u''] (StarExpr (SelectorExpr (Ident (MkIdent 10 ''m'')) (MkIdent 17 ''User''))),
      Field [MkIdent 25 ''t''] (SelectorExpr (Ident (MkIdent 0 ''time'')) (MkIdent 30 ''Time'')),
      Field [MkIdent 35 ''n''] (StarExpr (SelectorExpr (Ident (MkIdent 0 ''p'')) (MkIdent 40 ''Node''))),
      Field [MkIdent 45 ''x''] (Ident (MkIdent 52 ''T''))]
     [Field [] (Ident (MkIdent 60 ''error''))]"

definition exAdded :: "addedImport list" where
  "exAdded = [AddedImport [] ''time'', AddedImport [] ''example.com/p'']"

text \<open>
  An embedded interface of another package. Package \<^verbatim>\<open>example.com/b\<close> declares
  \<^verbatim>\<open>type I interface { a.E }\<close>; package \<^verbatim>\<open>example.com/a\<close> imports the concrete type's
  package \<^verbatim>\<open>example.com/q\<close> plainly and \<^verbatim>\<open>time\<close> with a dot, and declares
  \<^verbatim>\<open>type E interface { F(x q.T); At(t Time) bool }\<close>. The identifiers of the two method
  signatures belong to the file of \<^verbatim>\<open>a\<close> and are recorded in the type information of
  \<^verbatim>\<open>a\<close>; the type information of \<^verbatim>\<open>b\<close> records the identifiers of its own file only.
\<close>

definition pkgA :: package where "pkgA = Package ''example.com/a'' ''a''"
definition pkgB :: package where "pkgB = Package ''example.com/b'' ''b''"

definition exPkgA :: srcPackage where
  "exPkgA = \<lparr>PkgPath = ''example.com/a'', PkgName = ''a'',
      Uses = map_of
        [(MkIdent 50 ''q'', Object (PkgNameObj pkgQ) ''q'' (Some pkgA) (Basic ''invalid type'')),
         (MkIdent 52 ''T'', Object TypeNameObj ''T'' (Some pkgQ) (Named ''T'' (Some pkgQ) (Basic ''int''))),
         (MkIdent 30 ''Time'', Object TypeNameObj ''Time'' (Some pkgTime) (Named ''Time'' (Some pkgTime) (Basic ''int''))),
         (MkIdent 70 ''bool'', Object TypeNameObj ''bool'' None (Basic ''bool''))]\<rparr>"

definition exPkgB :: srcPackage where
  "exPkgB = \<lparr>PkgPath = ''example.com/b'', PkgName = ''b'',
      Uses = map_of
        [(MkIdent 110 ''a'', Object (PkgNameObj pkgA) ''a'' (Some pkgB) (Basic ''invalid type'')),
         (MkIdent 112 ''E'', Object TypeNameObj ''E'' (Some pkgA) (Named ''E'' (Some pkgA) (Interface [] [])))]\<rparr>"

definition exSigF :: expr where
  "exSigF = FuncType
     [Field [MkIdent 45 ''x''] (SelectorExpr (Ident (MkIdent 50 ''q'')) (MkIdent 52 ''T''))] []"

definition exSigAt :: expr where
  "exSigAt = FuncType
     [Field [MkIdent 25 ''t''] (Ident (MkIdent 30 ''Time''))]
     [Field [] (Ident (MkIdent 70 ''bool''))]"

text \<open>
  A workspace for the code action. Package \<^verbatim>\<open>example.com/p\<close> declares
  \<^verbatim>\<open>type I interface { Do(x int) error }\<close>, the interfaces
  \<^verbatim>\<open>A interface { F() }\<close>, \<^verbatim>\<open>B interface { A; F() }\<close> and \<^verbatim>\<open>AB interface { A; B }\<close>,
  the type \<^verbatim>\<open>D\<close> with \<^verbatim>\<open>Do(x int) error\<close> and the type \<^verbatim>\<open>M\<close> with \<^verbatim>\<open>Do(x string)\<close>;
  package \<^verbatim>\<open>example.com/q\<close> declares \<^verbatim>\<open>type C struct{}\<close> without methods. The file
  of \<^verbatim>\<open>p\<close> holds the declarations \<^verbatim>\<open>var _ I = q.C{}\<close> (the value at 100 to 106),
  \<^verbatim>\<open>var _ I = D{}\<close> (at 200 to 203) and \<^verbatim>\<open>var _ I = M{}\<close> (at 250 to 253), and a
  function with the statement \<^verbatim>\<open>return q.C{}\<close> (the keyword at 300, the result at 307
  to 313).
\<close>

definition sigDo :: signature where
  "sigDo = Signature [Basic ''int''] [Named ''error'' None (Interface [] [])] False"

definition sigDoString :: signature where
  "sigDoString = Signature [Basic ''string''] [] False"

definition sigF :: signature where "sigF = Signature [] [] False"

definition typeI :: gtype where
  "typeI = Named ''I'' (Some pkgP) (Interface [] [Func ''Do'' sigDo])"

definition typeA :: gtype where
  "typeA = Named ''A'' (Some pkgP) (Interface [] [Func ''F'' sigF])"

definition typeB :: gtype where
  "typeB = Named ''B'' (Some pkgP) (Interface [typeA] [Func ''F'' sigF])"

definition typeAB :: gtype where
  "typeAB = Named ''AB'' (Some pkgP) (Interface [typeA, typeB] [])"

definition typeC :: gtype where "typeC = Named ''C'' (Some pkgQ) (Basic ''struct{}'')"
definition typeD :: gtype where "typeD = Named ''D'' (Some pkgP) (Basic ''struct{}'')"
definition typeM :: gtype where "typeM = Named ''M'' (Some pkgP) (Basic ''struct{}'')"

definition objI :: object where "objI = Object TypeNameObj ''I'' (Some pkgP) typeI"
definition objAB :: object where "objAB = Object TypeNameObj ''AB'' (Some pkgP) typeAB"
definition objC :: object where "objC = Object TypeNameObj ''C'' (Some pkgQ) typeC"
definition objD :: object where "objD = Object TypeNameObj ''D'' (Some pkgP) typeD"
definition objM :: object where "objM = Object TypeNameObj ''M'' (Some pkgP) typeM"

definition wsUses :: "ident \<Rightarrow> object option" where
  "wsUses = map_of
     [(MkIdent 94 ''I'', objI), (MkIdent 194 ''I'', objI), (MkIdent 244 ''I'', objI),
      (MkIdent 100 ''q'', Object (PkgNameObj pkgQ) ''q'' (Some pkgP) (Basic ''invalid type'')),
      (MkIdent 102 ''C'', objC),
      (MkIdent 200 ''D'', objD),
      (MkIdent 250 ''M'', objM),
      (MkIdent 307 ''q'', Object (PkgNameObj pkgQ) ''q'' (Some pkgP) (Basic ''invalid type'')),
      (MkIdent 309 ''C'', objC),
      (MkIdent 20 ''int'', Object TypeNameObj ''int'' None (Basic ''int'')),
      (MkIdent 25 ''error'', Object TypeNameObj ''error'' None (Named ''error'' None (Interface [] [])))]"

definition wsPkgP :: srcPackage where
  "wsPkgP = \<lparr>PkgPath = ''example.com/p'', PkgName = ''p'', Uses = wsUses\<rparr>"

definition wsPkgQ :: srcPackage where
  "wsPkgQ = \<lparr>PkgPath = ''example.com/q'', PkgName = ''q'', Uses = Map.empty\<rparr>"

definition fileP :: astFile where
  "fileP = AstFile ''p'' [ImportSpec None ''example.com/q''] ''package p''"

definition fileQ :: astFile where
  "fileQ = AstFile ''q'' [] ''type C struct{}''"

definition fhP :: fileHandle where "fhP = FileHandle ''file:///p/p.go'' 7"
definition fhQ :: fileHandle where "fhQ = FileHandle ''file:///q/q.go'' 3"

definition selectorNode :: "nat \<Rightarrow> string \<Rightarrow> string \<Rightarrow> anode" where
  "selectorNode at x sel =
     ANode at (at + length x + 1 + length sel)
       (KOther [identNode (MkIdent at x), identNode (MkIdent (at + length x + 1) sel)])"

definition compositeLit :: "anode \<Rightarrow> anode" where
  "compositeLit t = ANode (NPos t) (NEnd t + 2) (KOther [t])"

definition valueSpecNode :: "nat \<Rightarrow> anode \<Rightarrow> anode" where
  "valueSpecNode at v =
     ANode at (NEnd v) (KValueSpec [MkIdent at ''_''] (Some (identNode (MkIdent (at + 4) ''I''))) [v])"

definition wsPath :: "nat \<Rightarrow> anode list" where
  "wsPath pos =
     (if pos = 100 then
        [compositeLit (selectorNode 100 ''q'' ''C''),
         valueSpecNode 90 (compositeLit (selectorNode 100 ''q'' ''C''))]
      else if pos = 200 then
        [compositeLit (identNode (MkIdent 200 ''D'')),
         valueSpecNode 190 (compositeLit (identNode (MkIdent 200 ''D'')))]
      else if pos = 250 then
        [compositeLit (identNode (MkIdent 250 ''M'')),
         valueSpecNode 240 (compositeLit (identNode (MkIdent 250 ''M'')))]
      else if pos = 300 then
        [ANode 300 313 (KReturnStmt [compositeLit (selectorNode 307 ''q'' ''C'')])]
      else if pos = 307 then
        [compositeLit (selectorNode 307 ''q'' ''C''),
         ANode 300 313 (KReturnStmt [compositeLit (selectorNode 307 ''q'' ''C'')])]
      else [])"

definition wsSnap :: snapshot where
  "wsSnap = \<lparr>
     GetParsedFile = (\<lambda>fh policy.
        if URI fh = ''file:///p/p.go'' then Inr (wsPkgP, ParsedGoFile (URI fh) fileP)
        else if URI fh = ''file:///q/q.go'' then Inr (wsPkgQ, ParsedGoFile (URI fh) fileQ)
        else Inl (Errorf ''no such file'')),
     FindFile = (\<lambda>uri. if uri = ''file:///q/q.go'' then fhQ else fhP),
     PositionFilename = (\<lambda>obj. if ObjPkg obj = Some pkgQ then ''file:///q/q.go'' else ''file:///p/p.go''),
     GetImport = (\<lambda>spkg path.
        if path = ''example.com/q'' then Inr wsPkgQ else Inl (Errorf ''no imported package'')),
     Identical = (\<lambda>x y. x = y),
     NewMethodSet = (\<lambda>t. if t = typeD \<or> t = Pointer typeD then [''Do'' \<mapsto> sigDo]
                         else if t = typeM \<or> t = Pointer typeM then [''Do'' \<mapsto> sigDoString]
                         else Map.empty),
     RangeSpan = (\<lambda>pgf r. Inr (fst (fst r), fst (snd r))),
     SpanRange = (\<lambda>pgf spn. Inr spn),
     PathEnclosingInterval = (\<lambda>f rstart rend. wsPath rstart),
     EnclosingFunction = (\<lambda>path spkg. Some [typeI]),
     MethodFieldType = (\<lambda>f m.
        if FuncName m = ''Do''
        then Some (FuncType [Field [MkIdent 18 ''x''] (Ident (MkIdent 20 ''int''))]
                            [Field [] (Ident (MkIdent 25 ''error''))])
        else Some (FuncType [] [])),
     DeclEndOffset = (\<lambda>f obj. Some (length (Decls f))),
     FormatNode = (\<lambda>n. if n = FuncType [] [] then Inr ''func()'' else Inr ''func(x int) error''),
     FormatFile = (\<lambda>f. Inr (Decls f)),
     ParseFile = (\<lambda>name src. Inr (AstFile name [] src)),
     AddNamedImport = (\<lambda>f name path.
        AstFile (FileName f) (Imports f @ [ImportSpec (if name = [] then None else Some name) path]) (Decls f)),
     ComputeTextEdits = (\<lambda>pgf src. Inr [TextEdit ((0, 0), (0, 0)) src])\<rparr>"

definition diagAt :: "nat \<Rightarrow> diagnostic" where
  "diagAt pos = Diagnostic ''compiler'' ''cannot use value as I: missing method Do'' ((pos, 0), (pos, 0))"

text \<open>
  The request that the declarations of the file of \<^verbatim>\<open>p\<close> yield for a concrete object
  and its package, and the concrete type that \<^verbatim>\<open>MethodStubActions\<close> makes for it.
\<close>

definition wsRequest :: "object \<Rightarrow> srcPackage \<Rightarrow> stubRequest" where
  "wsRequest concreteObj concretePkg =
     \<lparr>ir_ifacePkg = Some wsPkgP, ir_ifaceObj = objI, ir_concretePkg = Some concretePkg,
      ir_concreteObj = concreteObj, ir_pointer = False\<rparr>"

definition wsCt :: "package \<Rightarrow> astFile \<Rightarrow> object \<Rightarrow> concreteType" where
  "wsCt p f obj =
     \<lparr>pkg = p, cfile = f, tms = NewMethodSet wsSnap (ObjType obj),
      pms = NewMethodSet wsSnap (Pointer (ObjType obj)), addedImports = []\<rparr>"

section \<open>Properties of the rewriter\<close>

subsection \<open>The added imports\<close>

lemma hasAdded_iff: "hasAdded name path imps \<longleftrightarrow> AddedImport name path \<in> set imps"
  by (induction imps) (auto simp: addedImport.expand)

lemma addImport_distinct:
  "distinct (addedImports ct) \<Longrightarrow> distinct (addedImports (addImport name path ct))"
  by (simp add: addImport_def hasAdded_iff)

lemma preservesD: "preserves pre I \<Longrightarrow> I s \<Longrightarrow> pre n s = Inr (n', s', d) \<Longrightarrow> I s'"
  unfolding preserves_def by blast

lemma applyIdent_inv:
  "preserves pre I \<Longrightarrow> I s \<Longrightarrow> applyIdent pre i s = Inr (i', s') \<Longrightarrow> I s'"
proof -
  assume P: "preserves pre I" and I: "I s" and A: "applyIdent pre i s = Inr (i', s')"
  from A obtain n1 d where "pre (Ident i) s = Inr (n1, s', d)"
    by (auto simp: applyIdent_def split: sum.splits prod.splits if_splits expr.splits)
  with P I show "I s'" by (rule preservesD)
qed

lemma applyNames_inv:
  "preserves pre I \<Longrightarrow> I s \<Longrightarrow> applyNames pre is s = Inr (is', s') \<Longrightarrow> I s'"
proof (induction "is" arbitrary: s is' s')
  case Nil
  then show ?case by simp
next
  case (Cons i "is")
  from Cons.prems(3) obtain j s1 js where a: "applyIdent pre i s = Inr (j, s1)"
    and b: "applyNames pre is s1 = Inr (js, s')"
    by (auto split: sum.splits)
  have "I s1" by (rule applyIdent_inv[OF Cons.prems(1,2) a])
  then show ?case by (rule Cons.IH[OF Cons.prems(1) _ b])
qed

text \<open>An invariant that the callback keeps is kept by the whole walk.\<close>

lemma apply_inv:
  "preserves pre I \<Longrightarrow> I s \<Longrightarrow> applyExpr pre n s = Inr (n', s') \<Longrightarrow> I s'"
  "preserves pre I \<Longrightarrow> I s \<Longrightarrow> applyChildren pre n s = Inr (n', s') \<Longrightarrow> I s'"
  "preserves pre I \<Longrightarrow> I s \<Longrightarrow> applyFields pre fs s = Inr (fs', s') \<Longrightarrow> I s'"
  "preserves pre I \<Longrightarrow> I s \<Longrightarrow> applyField pre f s = Inr (f', s') \<Longrightarrow> I s'"
proof (induction pre n s and pre n s and pre fs s and pre f s
       arbitrary: n' s' and n' s' and fs' s' and f' s'
       rule: applyExpr_applyChildren_applyFields_applyField.induct)
  case (1 pre n s)
  from "1.prems"(3) obtain n1 s1 d where r: "pre n s = Inr (n1, s1, d)"
    and rest: "(if d then applyChildren pre n s1 else Inr (n1, s1)) = Inr (n', s')"
    by (auto split: sum.splits)
  have I1: "I s1" using "1.prems"(1,2) r by (rule preservesD)
  show ?case
  proof (cases d)
    case True
    with rest have ch: "applyChildren pre n s1 = Inr (n', s')" by simp
    show ?thesis
      by (rule "1.IH"[OF r refl refl True "1.prems"(1) I1 ch])
  next
    case False
    with rest I1 show ?thesis by simp
  qed
next
  case (2 pre i s)
  then show ?case by simp
next
  case (3 pre v s)
  then show ?case by simp
next
  case (4 pre x sel s)
  from "4.prems"(3) obtain x' s1 sel' where a: "applyExpr pre x s = Inr (x', s1)"
    and b: "applyIdent pre sel s1 = Inr (sel', s')"
    by (auto split: sum.splits)
  have "I s1" by (rule "4.IH"[OF "4.prems"(1,2) a])
  with "4.prems"(1) b show ?case by (blast intro: applyIdent_inv)
next
  case (5 pre x s)
  from "5.prems"(3) obtain x' where "applyExpr pre x s = Inr (x', s')"
    by (auto split: sum.splits)
  with "5.IH" "5.prems"(1,2) show ?case by blast
next
  case (6 pre x s)
  from "6.prems"(3) obtain x' where "applyExpr pre x s = Inr (x', s')"
    by (auto split: sum.splits)
  with "6.IH" "6.prems"(1,2) show ?case by blast
next
  case (7 pre x s)
  from "7.prems"(3) obtain x' where "applyExpr pre x s = Inr (x', s')"
    by (auto split: sum.splits)
  with "7.IH" "7.prems"(1,2) show ?case by blast
next
  case (8 pre x s)
  from "8.prems"(3) obtain x' where "applyExpr pre x s = Inr (x', s')"
    by (auto split: sum.splits)
  with "8.IH" "8.prems"(1,2) show ?case by blast
next
  case (9 pre elt s)
  from "9.prems"(3) obtain x' where "applyExpr pre elt s = Inr (x', s')"
    by (auto split: sum.splits)
  with "9.IH" "9.prems"(1,2) show ?case by blast
next
  case (10 pre len elt s)
  from "10.prems"(3) obtain l' s1 e' where a: "applyExpr pre len s = Inr (l', s1)"
    and b: "applyExpr pre elt s1 = Inr (e', s')"
    by (auto split: sum.splits)
  have I1: "I s1" by (rule "10.IH"(1)[OF "10.prems"(1,2) a])
  show ?case by (rule "10.IH"(2)[OF a refl "10.prems"(1) I1 b])
next
  case (11 pre k v s)
  from "11.prems"(3) obtain l' s1 e' where a: "applyExpr pre k s = Inr (l', s1)"
    and b: "applyExpr pre v s1 = Inr (e', s')"
    by (auto split: sum.splits)
  have I1: "I s1" by (rule "11.IH"(1)[OF "11.prems"(1,2) a])
  show ?case by (rule "11.IH"(2)[OF a refl "11.prems"(1) I1 b])
next
  case (12 pre params results s)
  from "12.prems"(3) obtain l' s1 e' where a: "applyFields pre params s = Inr (l', s1)"
    and b: "applyFields pre results s1 = Inr (e', s')"
    by (auto split: sum.splits)
  have I1: "I s1" by (rule "12.IH"(1)[OF "12.prems"(1,2) a])
  show ?case by (rule "12.IH"(2)[OF a refl "12.prems"(1) I1 b])
next
  case (13 pre methods s)
  from "13.prems"(3) obtain x' where "applyFields pre methods s = Inr (x', s')"
    by (auto split: sum.splits)
  with "13.IH" "13.prems"(1,2) show ?case by blast
next
  case (14 pre flds s)
  from "14.prems"(3) obtain x' where "applyFields pre flds s = Inr (x', s')"
    by (auto split: sum.splits)
  with "14.IH" "14.prems"(1,2) show ?case by blast
next
  case (15 pre s)
  then show ?case by simp
next
  case (16 pre f fs s)
  from "16.prems"(3) obtain l' s1 e' where a: "applyField pre f s = Inr (l', s1)"
    and b: "applyFields pre fs s1 = Inr (e', s')"
    by (auto split: sum.splits)
  have I1: "I s1" by (rule "16.IH"(1)[OF "16.prems"(1,2) a])
  show ?case by (rule "16.IH"(2)[OF a refl "16.prems"(1) I1 b])
next
  case (17 pre names t s)
  from "17.prems"(3) obtain l' s1 e' where a: "applyNames pre names s = Inr (l', s1)"
    and b: "applyExpr pre t s1 = Inr (e', s')"
    by (auto split: sum.splits)
  have I1: "I s1" by (rule applyNames_inv[OF "17.prems"(1,2) a])
  show ?case by (rule "17.IH"[OF a refl "17.prems"(1) I1 b])
qed

lemma mightRenameSelector_distinct:
  "distinct (addedImports ct) \<Longrightarrow> mightRenameSelector uses x sel ct = (x', ct', b)
   \<Longrightarrow> distinct (addedImports ct')"
  by (auto simp: mightRenameSelector_def addImport_distinct Let_def
      split: expr.splits option.splits objkind.splits if_splits)

lemma mightAddSelector_distinct:
  "distinct (addedImports ct) \<Longrightarrow> mightAddSelector ident ifacePkg ct = (n', ct', b)
   \<Longrightarrow> distinct (addedImports ct')"
  by (auto simp: mightAddSelector_def addImport_distinct Let_def
      split: option.splits gtype.splits if_splits)

lemma rewriteNode_distinct:
  "preserves (rewriteNode miPkg ifacePkg) (\<lambda>ct. distinct (addedImports ct))"
  unfolding preserves_def rewriteNode_def
  by (auto split: expr.splits prod.splits
      dest: mightRenameSelector_distinct mightAddSelector_distinct)

lemma findAdded_None: "findAdded path imps = None \<longleftrightarrow> path \<notin> AddPath ` set imps"
  by (induction imps) auto

lemma hasImport_None_added:
  "hasImport ct path = None \<Longrightarrow> path \<notin> AddPath ` set (addedImports ct)"
  by (auto simp: hasImport_def findAdded_None split: option.splits)

lemma mightRenameSelector_impl_distinct:
  "distinct (map AddPath (addedImports ct)) \<Longrightarrow> mightRenameSelector_impl uses x sel ct = (x', ct', b)
   \<Longrightarrow> distinct (map AddPath (addedImports ct'))"
  by (auto simp: mightRenameSelector_impl_def addImport_impl_def Let_def
      split: expr.splits option.splits objkind.splits if_splits
      dest: hasImport_None_added)

lemma mightAddSelector_impl_distinct:
  "distinct (map AddPath (addedImports ct)) \<Longrightarrow> mightAddSelector_impl ident ifacePkg ct = (n', ct', b)
   \<Longrightarrow> distinct (map AddPath (addedImports ct'))"
  by (auto simp: mightAddSelector_impl_def addImport_impl_def Let_def
      split: option.splits gtype.splits if_splits
      dest: hasImport_None_added)

lemma rewriteNode_impl_distinct:
  "preserves (rewriteNode_impl ifacePkg implPath) (\<lambda>ct. distinct (map AddPath (addedImports ct)))"
  unfolding preserves_def rewriteNode_impl_def
  by (auto split: expr.splits prod.splits sum.splits
      dest: mightRenameSelector_impl_distinct mightAddSelector_impl_distinct)

subsection \<open>The walk stops at names\<close>

lemma isName_topNodes: "isName n \<Longrightarrow> topNodes n = [n]"
  by (cases n) auto

lemma stopsD_name:
  "stopsAtNames pre \<Longrightarrow> isName n \<Longrightarrow> pre n s = Inr (n', s', d) \<Longrightarrow> \<not> d \<and> isName n'"
  unfolding stopsAtNames_def by metis

lemma stopsD_other:
  "stopsAtNames pre \<Longrightarrow> \<not> isName n \<Longrightarrow> pre n s = Inr (n', s', d) \<Longrightarrow> d \<and> n' = n \<and> s' = s"
  unfolding stopsAtNames_def by metis

lemma visitNodes_append:
  "visitNodes pre xs s = Inr (xs', s1) \<Longrightarrow> visitNodes pre ys s1 = Inr (ys', s2)
   \<Longrightarrow> visitNodes pre (xs @ ys) s = Inr (xs' @ ys', s2)"
proof (induction xs arbitrary: s xs')
  case Nil
  then show ?case by simp
next
  case (Cons x xs)
  from Cons.prems(1) obtain n1 t1 d zs where a: "pre x s = Inr (n1, t1, d)"
    and b: "visitNodes pre xs t1 = Inr (zs, s1)" and c: "xs' = n1 # zs"
    by (auto split: sum.splits)
  from Cons.IH[OF b Cons.prems(2)] a c show ?case by simp
qed

lemma applyNames_visit:
  "stopsAtNames pre \<Longrightarrow> applyNames pre is s = Inr (is', s')
   \<Longrightarrow> visitNodes pre (map Ident is) s = Inr (map Ident is', s')"
proof (induction "is" arbitrary: s is')
  case Nil
  then show ?case by simp
next
  case (Cons i "is")
  from Cons.prems(2) obtain j s1 js where a: "applyIdent pre i s = Inr (j, s1)"
    and b: "applyNames pre is s1 = Inr (js, s')" and c: "is' = j # js"
    by (auto split: sum.splits)
  from a obtain n1 d where p: "pre (Ident i) s = Inr (n1, s1, d)"
    and q: "if d then j = i else n1 = Ident j"
    by (auto simp: applyIdent_def split: sum.splits prod.splits if_splits expr.splits)
  from stopsD_name[OF Cons.prems(1) _ p] have "\<not> d" by simp
  with q have "n1 = Ident j" by simp
  with p Cons.IH[OF Cons.prems(1) b] c show ?case by simp
qed


lemma apply_visit:
  "stopsAtNames pre \<Longrightarrow> applyExpr pre n s = Inr (n', s')
     \<Longrightarrow> visitNodes pre (topNodes n) s = Inr (topNodes n', s')"
  "stopsAtNames pre \<Longrightarrow> \<not> isName n \<Longrightarrow> applyChildren pre n s = Inr (n', s')
     \<Longrightarrow> visitNodes pre (topNodes n) s = Inr (topNodes n', s')"
  "stopsAtNames pre \<Longrightarrow> applyFields pre fs s = Inr (fs', s')
     \<Longrightarrow> visitNodes pre (topNodesFields fs) s = Inr (topNodesFields fs', s')"
  "stopsAtNames pre \<Longrightarrow> applyField pre f s = Inr (f', s')
     \<Longrightarrow> visitNodes pre (topNodesField f) s = Inr (topNodesField f', s')"
proof (induction pre n s and pre n s and pre fs s and pre f s
       arbitrary: n' s' and n' s' and fs' s' and f' s'
       rule: applyExpr_applyChildren_applyFields_applyField.induct)
  case (1 pre n s)
  from "1.prems"(2) obtain n1 s1 d where r: "pre n s = Inr (n1, s1, d)"
    and rest: "(if d then applyChildren pre n s1 else Inr (n1, s1)) = Inr (n', s')"
    by (auto split: sum.splits)
  show ?case
  proof (cases "isName n")
    case True
    from stopsD_name[OF "1.prems"(1) True r] have d: "\<not> d" and n1: "isName n1" by simp_all
    from rest d have "n' = n1" "s' = s1" by simp_all
    with r n1 True show ?thesis by (simp add: isName_topNodes)
  next
    case False
    from stopsD_other[OF "1.prems"(1) False r] have d: d and e: "n1 = n" "s1 = s" by simp_all
    from rest d have ch: "applyChildren pre n s1 = Inr (n', s')" by simp
    have "visitNodes pre (topNodes n) s1 = Inr (topNodes n', s')"
      by (rule "1.IH"[OF r refl refl d "1.prems"(1) False ch])
    with e show ?thesis by simp
  qed
next
  case (2 pre i s)
  then show ?case by simp
next
  case (3 pre v s)
  then show ?case by auto
next
  case (4 pre x sel s)
  then show ?case by simp
next
  case (5 pre x s)
  from "5.prems"(3) obtain x' where a: "applyExpr pre x s = Inr (x', s')" and b: "n' = StarExpr x'"
    by (auto split: sum.splits)
  from "5.IH"[OF "5.prems"(1) a] b show ?case by simp
next
  case (6 pre x s)
  from "6.prems"(3) obtain x' where a: "applyExpr pre x s = Inr (x', s')" and b: "n' = ParenExpr x'"
    by (auto split: sum.splits)
  from "6.IH"[OF "6.prems"(1) a] b show ?case by simp
next
  case (7 pre x s)
  from "7.prems"(3) obtain x' where a: "applyExpr pre x s = Inr (x', s')" and b: "n' = Ellipsis x'"
    by (auto split: sum.splits)
  from "7.IH"[OF "7.prems"(1) a] b show ?case by simp
next
  case (8 pre x s)
  from "8.prems"(3) obtain x' where a: "applyExpr pre x s = Inr (x', s')" and b: "n' = ChanType x'"
    by (auto split: sum.splits)
  from "8.IH"[OF "8.prems"(1) a] b show ?case by simp
next
  case (9 pre elt s)
  from "9.prems"(3) obtain x' where a: "applyExpr pre elt s = Inr (x', s')"
    and b: "n' = ArrayType None x'"
    by (auto split: sum.splits)
  from "9.IH"[OF "9.prems"(1) a] b show ?case by simp
next
  case (10 pre len elt s)
  from "10.prems"(3) obtain l' s1 e' where a: "applyExpr pre len s = Inr (l', s1)"
    and b: "applyExpr pre elt s1 = Inr (e', s')" and c: "n' = ArrayType (Some l') e'"
    by (auto split: sum.splits)
  from visitNodes_append[OF "10.IH"(1)[OF "10.prems"(1) a] "10.IH"(2)[OF a refl "10.prems"(1) b]] c
  show ?case by simp
next
  case (11 pre k v s)
  from "11.prems"(3) obtain l' s1 e' where a: "applyExpr pre k s = Inr (l', s1)"
    and b: "applyExpr pre v s1 = Inr (e', s')" and c: "n' = MapType l' e'"
    by (auto split: sum.splits)
  from visitNodes_append[OF "11.IH"(1)[OF "11.prems"(1) a] "11.IH"(2)[OF a refl "11.prems"(1) b]] c
  show ?case by simp
next
  case (12 pre params results s)
  from "12.prems"(3) obtain l' s1 e' where a: "applyFields pre params s = Inr (l', s1)"
    and b: "applyFields pre results s1 = Inr (e', s')" and c: "n' = FuncType l' e'"
    by (auto split: sum.splits)
  from visitNodes_append[OF "12.IH"(1)[OF "12.prems"(1) a] "12.IH"(2)[OF a refl "12.prems"(1) b]] c
  show ?case by simp
next
  case (13 pre methods s)
  from "13.prems"(3) obtain x' where a: "applyFields pre methods s = Inr (x', s')"
    and b: "n' = InterfaceType x'"
    by (auto split: sum.splits)
  from "13.IH"[OF "13.prems"(1) a] b show ?case by simp
next
  case (14 pre flds s)
  from "14.prems"(3) obtain x' where a: "applyFields pre flds s = Inr (x', s')"
    and b: "n' = StructType x'"
    by (auto split: sum.splits)
  from "14.IH"[OF "14.prems"(1) a] b show ?case by simp
next
  case (15 pre s)
  then show ?case by auto
next
  case (16 pre f fs s)
  from "16.prems"(2) obtain l' s1 e' where a: "applyField pre f s = Inr (l', s1)"
    and b: "applyFields pre fs s1 = Inr (e', s')" and c: "fs' = l' # e'"
    by (auto split: sum.splits)
  from visitNodes_append[OF "16.IH"(1)[OF "16.prems"(1) a] "16.IH"(2)[OF a refl "16.prems"(1) b]] c
  show ?case by simp
next
  case (17 pre names t s)
  from "17.prems"(2) obtain l' s1 e' where a: "applyNames pre names s = Inr (l', s1)"
    and b: "applyExpr pre t s1 = Inr (e', s')" and c: "f' = Field l' e'"
    by (auto split: sum.splits)
  from visitNodes_append[OF applyNames_visit[OF "17.prems"(1) a] "17.IH"[OF a refl "17.prems"(1) b]] c
  show ?case by simp
qed

lemma visitNodes_length: "visitNodes pre ns s = Inr (ns', s') \<Longrightarrow> length ns' = length ns"
proof (induction ns arbitrary: s ns')
  case Nil
  then show ?case by simp
next
  case (Cons m ms)
  from Cons.prems obtain m1 t1 e ys where x: "pre m s = Inr (m1, t1, e)"
    and y: "visitNodes pre ms t1 = Inr (ys, s')" and z: "ns' = m1 # ys"
    by (auto split: sum.splits)
  from Cons.IH[OF y] z show ?case by simp
qed

lemma visitNodes_inv:
  "preserves pre I \<Longrightarrow> I s \<Longrightarrow> visitNodes pre ns s = Inr (ns', s') \<Longrightarrow> I s'"
proof (induction ns arbitrary: s ns')
  case Nil
  then show ?case by simp
next
  case (Cons m ms)
  from Cons.prems(3) obtain m1 t1 e ys where x: "pre m s = Inr (m1, t1, e)"
    and y: "visitNodes pre ms t1 = Inr (ys, s')"
    by (auto split: sum.splits)
  have "I t1" using Cons.prems(1,2) x unfolding preserves_def by blast
  then show ?case by (rule Cons.IH[OF Cons.prems(1) _ y])
qed

text \<open>What the walk did at the k-th node it stopped at.\<close>

lemma visitNodes_nth:
  assumes "visitNodes pre ns s = Inr (ns', s')" and "k < length ns"
    and "preserves pre I" and "I s" and "preserves pre J"
  shows "\<exists>sk sk' d. pre (ns ! k) sk = Inr (ns' ! k, sk', d) \<and> I sk \<and> (J sk' \<longrightarrow> J s')"
  using assms(1,2,4)
proof (induction ns arbitrary: s ns' k)
  case Nil
  then show ?case by simp
next
  case (Cons n ns)
  from Cons.prems(1) obtain n1 s1 d zs where a: "pre n s = Inr (n1, s1, d)"
    and b: "visitNodes pre ns s1 = Inr (zs, s')" and c: "ns' = n1 # zs"
    by (auto split: sum.splits)
  have I1: "I s1" using assms(3) Cons.prems(3) a unfolding preserves_def by blast
  show ?case
  proof (cases k)
    case 0
    have x: "pre ((n # ns) ! k) s = Inr (ns' ! k, s1, d)" using 0 a c by simp
    have y: "J s1 \<longrightarrow> J s'" using visitNodes_inv[OF assms(5) _ b] by blast
    from x y Cons.prems(3) show ?thesis by blast
  next
    case (Suc j)
    with Cons.prems(2) have j: "j < length ns" by simp
    from Cons.IH[OF b j I1] obtain sk sk' e where
      p: "pre (ns ! j) sk = Inr (zs ! j, sk', e)" and q: "I sk" and r: "J sk' \<longrightarrow> J s'"
      by blast
    have "pre ((n # ns) ! k) sk = Inr (ns' ! k, sk', e)" using p Suc c by simp
    with q r show ?thesis by blast
  qed
qed

lemmas ex_defs = pkgP_def pkgQ_def pkgModels_def pkgTime_def exUses_def exIfacePkg_def
  exCt_def exSig_def exSig'_def exAdded_def

lemmas rewrite_defs = rewriteSignature_def rewriteNode_def mightRenameSelector_def
  mightRemoveSelector_def mightAddSelector_def applyIdent_def addImport_def
  isIgnoredImport_def

lemmas rewrite_impl_defs = rewriteSignature_impl_def rewriteNode_impl_def
  mightRenameSelector_impl_def mightRemoveSelector_impl_def mightAddSelector_impl_def
  applyIdent_def addImport_impl_def hasImport_def isIgnoredImport_def

lemma example_rewrite:
  "rewriteSignature exIfacePkg exIfacePkg exSig exCt = Inr (exSig', exCt\<lparr>addedImports := exAdded\<rparr>)"
  by (simp add: ex_defs rewrite_defs Let_def)

lemma example_rewrite_impl:
  "rewriteSignature_impl exIfacePkg (Path pkgQ) exSig exCt
     = Inr (exSig', exCt\<lparr>addedImports := exAdded\<rparr>)"
  by (simp add: ex_defs rewrite_impl_defs Let_def)

subsection \<open>Selectors and bare identifiers\<close>

lemma addImport_frame [simp]:
  "pkg (addImport name path ct) = pkg ct" "cfile (addImport name path ct) = cfile ct"
  by (simp_all add: addImport_def)

lemma addImport_mono: "a \<in> set (addedImports ct) \<Longrightarrow> a \<in> set (addedImports (addImport name path ct))"
  by (simp add: addImport_def)

lemma addImport_mem: "AddedImport name path \<in> set (addedImports (addImport name path ct))"
  by (simp add: addImport_def hasAdded_iff)

lemma addImport_filter:
  "path \<noteq> P \<Longrightarrow> filter (\<lambda>i. AddPath i = P) (addedImports (addImport name path ct))
     = filter (\<lambda>i. AddPath i = P) (addedImports ct)"
  by (simp add: addImport_def)

lemma mightRenameSelector_cases:
  "mightRenameSelector uses x sel ct = (x', ct', b) \<Longrightarrow>
     b = False \<and> (ct' = ct \<or> (\<exists>name path. ct' = addImport name path ct
                                \<and> findImport path (Imports (cfile ct)) = None))"
  by (auto simp: mightRenameSelector_def Let_def
      split: expr.splits option.splits objkind.splits if_splits)

lemma mightAddSelector_cases:
  "mightAddSelector ident ifacePkg ct = (n', ct', b) \<Longrightarrow>
     b = False \<and> (n' = Ident ident \<or> (\<exists>a. n' = SelectorExpr (Ident (MkIdent 0 a)) ident))
     \<and> (ct' = ct \<or> (\<exists>path. ct' = addImport [] path ct
                                \<and> findImport path (Imports (cfile ct)) = None))"
  by (auto simp: mightAddSelector_def Let_def
      split: option.splits gtype.splits if_splits)

lemma mightRemoveSelector_cases:
  "mightRemoveSelector uses x sel path = (n', b) \<Longrightarrow>
     b = False \<and> (if resolvesInto uses sel path then n' = Ident sel else n' = SelectorExpr x sel)"
  by (auto simp: mightRemoveSelector_def resolvesInto_def split: option.splits if_splits)

lemma rewriteNode_stops: "stopsAtNames (rewriteNode miPkg ifacePkg)"
  unfolding stopsAtNames_def
proof (intro allI impI)
  fix n s n' s' d
  assume A: "rewriteNode miPkg ifacePkg n s = Inr (n', s', d)"
  show "if isName n then \<not> d \<and> isName n' else d \<and> n' = n \<and> s' = s"
  proof (cases n)
    case (Ident i)
    with A have "mightAddSelector i ifacePkg s = (n', s', d)" by (simp add: rewriteNode_def)
    from mightAddSelector_cases[OF this] Ident show ?thesis by auto
  next
    case (SelectorExpr x sel)
    obtain x1 s1 b1 where r: "mightRenameSelector (Uses miPkg) x sel s = (x1, s1, b1)"
      by (cases "mightRenameSelector (Uses miPkg) x sel s") auto
    obtain n2 b2 where m: "mightRemoveSelector (Uses miPkg) x1 sel (Path (pkg s1)) = (n2, b2)"
      by (cases "mightRemoveSelector (Uses miPkg) x1 sel (Path (pkg s1))") auto
    from A SelectorExpr r m have e: "n' = n2" "s' = s1" "d = (b2 \<or> b1)"
      by (simp_all add: rewriteNode_def)
    from mightRenameSelector_cases[OF r] mightRemoveSelector_cases[OF m] e SelectorExpr
    show ?thesis by (auto split: if_splits)
  qed (use A in \<open>auto simp: rewriteNode_def\<close>)
qed

lemma rewriteNode_frame:
  "preserves (rewriteNode miPkg ifacePkg) (\<lambda>s. pkg s = pkg ct \<and> cfile s = cfile ct)"
  unfolding preserves_def
proof (intro allI impI)
  fix n s n' s' d
  assume I: "pkg s = pkg ct \<and> cfile s = cfile ct"
    and A: "rewriteNode miPkg ifacePkg n s = Inr (n', s', d)"
  show "pkg s' = pkg ct \<and> cfile s' = cfile ct"
  proof (cases n)
    case (Ident i)
    with A have "mightAddSelector i ifacePkg s = (n', s', d)" by (simp add: rewriteNode_def)
    from mightAddSelector_cases[OF this] I show ?thesis by auto
  next
    case (SelectorExpr x sel)
    obtain x1 s1 b1 where r: "mightRenameSelector (Uses miPkg) x sel s = (x1, s1, b1)"
      by (cases "mightRenameSelector (Uses miPkg) x sel s") auto
    from A SelectorExpr r have e: "s' = s1"
      by (simp add: rewriteNode_def split: prod.splits)
    from mightRenameSelector_cases[OF r] e I show ?thesis by auto
  qed (use A I in \<open>auto simp: rewriteNode_def\<close>)
qed


lemma rewriteNode_selector:
  "\<exists>x1 s1. rewriteNode miPkg ifacePkg (SelectorExpr q n) s
      = Inr (if resolvesInto (Uses miPkg) n (Path (pkg s)) then Ident n else SelectorExpr x1 n, s1, False)
    \<and> mightRenameSelector (Uses miPkg) q n s = (x1, s1, False)"
proof -
  obtain x1 s1 b1 where r: "mightRenameSelector (Uses miPkg) q n s = (x1, s1, b1)"
    by (cases "mightRenameSelector (Uses miPkg) q n s") auto
  obtain n2 b2 where m: "mightRemoveSelector (Uses miPkg) x1 n (Path (pkg s1)) = (n2, b2)"
    by (cases "mightRemoveSelector (Uses miPkg) x1 n (Path (pkg s1))") auto
  from mightRenameSelector_cases[OF r] have b1: "b1 = False" and p: "pkg s1 = pkg s" by auto
  from mightRemoveSelector_cases[OF m] p have b2: "b2 = False"
    and n2: "n2 = (if resolvesInto (Uses miPkg) n (Path (pkg s)) then Ident n else SelectorExpr x1 n)"
    by auto
  from r m b1 b2 n2 show ?thesis by (simp add: rewriteNode_def)
qed

lemma rewriteNode_selector_origin:
  assumes "rewriteNode miPkg ifacePkg m s = Inr (SelectorExpr x n, s', d)"
    and "resolvesInto (Uses miPkg) n (Path (pkg s))"
  shows "m = Ident n"
proof (cases m)
  case (Ident i)
  with assms(1) have "mightAddSelector i ifacePkg s = (SelectorExpr x n, s', d)"
    by (simp add: rewriteNode_def)
  from mightAddSelector_cases[OF this] Ident show ?thesis by auto
next
  case (SelectorExpr x0 s0)
  from rewriteNode_selector[of miPkg ifacePkg x0 s0 s] assms SelectorExpr
  show ?thesis by (auto split: if_splits)
qed (use assms(1) in \<open>auto simp: rewriteNode_def\<close>)

text \<open>
  What stub.go does with a selector \<open>q.n\<close> whose member \<open>n\<close> resolves, in the type
  information of the package that declares the method (\<^verbatim>\<open>mi.pkg\<close>), to an object of
  the concrete type's package: it is replaced by the bare identifier \<open>n\<close>, by the
  callback on the node and at every place where the walk of a signature meets such a
  selector, so that a selector on \<open>n\<close> in the rewritten tree can only be the
  qualification of a bare \<open>n\<close> of the input, never a selector that was kept. The last
  part is the callback of impl.go on a node whose member resolves in the type
  information that impl.go hands to it.
\<close>

theorem selector_into_concrete_package_unqualified:
  assumes "resolvesInto (Uses miPkg) n (Path (pkg ct))"
  shows "(\<exists>ct1. rewriteNode miPkg ifacePkg (SelectorExpr q n) ct = Inr (Ident n, ct1, False))
    \<and> (\<forall>t t' ct' k. rewriteSignature miPkg ifacePkg t ct = Inr (t', ct')
          \<and> k < length (topNodes t) \<and> topNodes t ! k = SelectorExpr q n
          \<longrightarrow> topNodes t' ! k = Ident n)
    \<and> (\<forall>t t' ct' x. rewriteSignature miPkg ifacePkg t ct = Inr (t', ct')
          \<and> SelectorExpr x n \<in> set (topNodes t')
          \<longrightarrow> Ident n \<in> set (topNodes t))
    \<and> (\<forall>implPkg implPath. resolvesInto (Uses implPkg) n implPath
          \<longrightarrow> (\<exists>ct1. rewriteNode_impl implPkg implPath (SelectorExpr q n) ct = Inr (Ident n, ct1, False)))"
proof (intro conjI allI impI)
  from rewriteNode_selector[of miPkg ifacePkg q n ct] assms
  show "\<exists>ct1. rewriteNode miPkg ifacePkg (SelectorExpr q n) ct = Inr (Ident n, ct1, False)"
    by auto
next
  fix t t' ct' k
  assume A: "rewriteSignature miPkg ifacePkg t ct = Inr (t', ct')
          \<and> k < length (topNodes t) \<and> topNodes t ! k = SelectorExpr q n"
  then have v: "visitNodes (rewriteNode miPkg ifacePkg) (topNodes t) ct = Inr (topNodes t', ct')"
    unfolding rewriteSignature_def by (blast intro: apply_visit(1)[OF rewriteNode_stops])
  from visitNodes_nth[OF v _ rewriteNode_frame[of miPkg ifacePkg ct] _ rewriteNode_frame[of miPkg ifacePkg ct], of k] A
  obtain sk sk' d where p: "rewriteNode miPkg ifacePkg (SelectorExpr q n) sk = Inr (topNodes t' ! k, sk', d)"
    and q: "pkg sk = pkg ct"
    by auto
  from rewriteNode_selector[of miPkg ifacePkg q n sk] assms p q
  show "topNodes t' ! k = Ident n" by auto
next
  fix t t' ct' x
  assume A: "rewriteSignature miPkg ifacePkg t ct = Inr (t', ct')
          \<and> SelectorExpr x n \<in> set (topNodes t')"
  then have v: "visitNodes (rewriteNode miPkg ifacePkg) (topNodes t) ct = Inr (topNodes t', ct')"
    unfolding rewriteSignature_def by (blast intro: apply_visit(1)[OF rewriteNode_stops])
  have len: "length (topNodes t') = length (topNodes t)" by (rule visitNodes_length[OF v])
  from A obtain k where k: "k < length (topNodes t')" and e: "topNodes t' ! k = SelectorExpr x n"
    by (auto simp: in_set_conv_nth)
  from visitNodes_nth[OF v _ rewriteNode_frame[of miPkg ifacePkg ct] _ rewriteNode_frame[of miPkg ifacePkg ct], of k] k len e
  obtain sk sk' d where p: "rewriteNode miPkg ifacePkg (topNodes t ! k) sk = Inr (SelectorExpr x n, sk', d)"
    and q: "pkg sk = pkg ct"
    by auto
  from rewriteNode_selector_origin[OF p] assms q have "topNodes t ! k = Ident n" by simp
  with k len show "Ident n \<in> set (topNodes t)" by (metis nth_mem)
next
  fix implPkg :: srcPackage and implPath
  assume "resolvesInto (Uses implPkg) n implPath"
  then show "\<exists>ct1. rewriteNode_impl implPkg implPath (SelectorExpr q n) ct = Inr (Ident n, ct1, False)"
    by (cases "mightRenameSelector_impl (Uses implPkg) q n ct")
       (auto simp: rewriteNode_impl_def mightRemoveSelector_impl_def resolvesInto_def
             mightRenameSelector_impl_def Let_def
             split: option.splits expr.splits objkind.splits if_splits)
qed


theorem selector_into_concrete_package_unqualified_witness:
  "resolvesInto (Uses exIfacePkg) (MkIdent 52 ''T'') (Path (pkg exCt))
   \<and> rewriteNode exIfacePkg exIfacePkg (SelectorExpr (Ident (MkIdent 50 ''q'')) (MkIdent 52 ''T'')) exCt
       = Inr (Ident (MkIdent 52 ''T''), exCt, False)
   \<and> rewriteSignature exIfacePkg exIfacePkg exSig exCt = Inr (exSig', exCt\<lparr>addedImports := exAdded\<rparr>)
   \<and> topNodes exSig ! 7 = SelectorExpr (Ident (MkIdent 50 ''q'')) (MkIdent 52 ''T'')
   \<and> topNodes exSig' ! 7 = Ident (MkIdent 52 ''T'')
   \<and> rewriteNode_impl exIfacePkg (Path pkgQ) (SelectorExpr (Ident (MkIdent 50 ''q'')) (MkIdent 52 ''T'')) exCt
       = Inr (Ident (MkIdent 52 ''T''), exCt, False)"
proof -
  have h: "resolvesInto (Uses exIfacePkg) (MkIdent 52 ''T'') (Path (pkg exCt))"
    by (simp add: resolvesInto_def ex_defs)
  have at: "7 < length (topNodes exSig)
    \<and> topNodes exSig ! 7 = SelectorExpr (Ident (MkIdent 50 ''q'')) (MkIdent 52 ''T'')"
    by (simp add: exSig_def)
  note T = selector_into_concrete_package_unqualified[OF h, of exIfacePkg "Ident (MkIdent 50 ''q'')"]
  from T example_rewrite at have "topNodes exSig' ! 7 = Ident (MkIdent 52 ''T'')" by blast
  moreover have "rewriteNode exIfacePkg exIfacePkg (SelectorExpr (Ident (MkIdent 50 ''q'')) (MkIdent 52 ''T'')) exCt
       = Inr (Ident (MkIdent 52 ''T''), exCt, False)"
    by (simp add: ex_defs rewrite_defs Let_def)
  moreover have "rewriteNode_impl exIfacePkg (Path pkgQ) (SelectorExpr (Ident (MkIdent 50 ''q'')) (MkIdent 52 ''T'')) exCt
       = Inr (Ident (MkIdent 52 ''T''), exCt, False)"
    by (simp add: ex_defs rewrite_impl_defs Let_def)
  ultimately show ?thesis using h at example_rewrite by simp
qed

text \<open>
  C1 on impl.go. \<^verbatim>\<open>Implement\<close> resolves every selector in the type information of
  the requested interface's package, also when the signature comes from the file of an
  embedded interface of another package, and \<^verbatim>\<open>mightRemoveSelector\<close> of impl.go calls
  \<^verbatim>\<open>obj.Pkg()\<close> without a nil check. For the method \<^verbatim>\<open>F(x q.T)\<close> of \<^verbatim>\<open>a.E\<close>, embedded
  in \<^verbatim>\<open>b.I\<close>, the member \<^verbatim>\<open>T\<close> resolves into the concrete type's package in the type
  information of \<^verbatim>\<open>a\<close>, the interface file's package; impl.go looks it up in that of
  \<^verbatim>\<open>b\<close>, finds nothing and panics instead of writing \<^verbatim>\<open>T\<close>. stub.go, which resolves
  in \<^verbatim>\<open>mi.pkg\<close> and checks for nil, writes \<^verbatim>\<open>func(x T)\<close>.
\<close>

theorem impl_rewriter_panics_on_embedded_selector:
  "resolvesInto (Uses exPkgA) (MkIdent 52 ''T'') (Path (pkg exCt))
   \<and> Uses exPkgB (MkIdent 52 ''T'') = None
   \<and> rewriteSignature_impl exPkgB (Path (pkg exCt)) exSigF exCt
        = Inl (Panic ''invalid memory address or nil pointer dereference'')
   \<and> rewriteSignature exPkgA exPkgB exSigF exCt
        = Inr (FuncType [Field [MkIdent 45 ''x''] (Ident (MkIdent 52 ''T''))] [], exCt)"
  by (simp add: resolvesInto_def ex_defs exPkgA_def exPkgB_def exSigF_def pkgA_def pkgB_def
      rewrite_defs rewrite_impl_defs Let_def)

lemma rewriteNode_unqueued:
  assumes "findImport P (Imports (cfile ct)) \<noteq> None"
  shows "preserves (rewriteNode miPkg ifacePkg)
     (\<lambda>s. pkg s = pkg ct \<and> cfile s = cfile ct
        \<and> filter (\<lambda>i. AddPath i = P) (addedImports s) = filter (\<lambda>i. AddPath i = P) (addedImports ct))"
  unfolding preserves_def
proof (intro allI impI)
  fix n s n' s' d
  assume I: "pkg s = pkg ct \<and> cfile s = cfile ct
        \<and> filter (\<lambda>i. AddPath i = P) (addedImports s) = filter (\<lambda>i. AddPath i = P) (addedImports ct)"
    and A: "rewriteNode miPkg ifacePkg n s = Inr (n', s', d)"
  have step: "s' = s \<or> (\<exists>name path. s' = addImport name path s \<and> findImport path (Imports (cfile s)) = None)"
  proof (cases n)
    case (Ident i)
    with A have "mightAddSelector i ifacePkg s = (n', s', d)" by (simp add: rewriteNode_def)
    from mightAddSelector_cases[OF this] show ?thesis by auto
  next
    case (SelectorExpr x sel)
    obtain x1 s1 b1 where r: "mightRenameSelector (Uses miPkg) x sel s = (x1, s1, b1)"
      by (cases "mightRenameSelector (Uses miPkg) x sel s") auto
    from A SelectorExpr r have e: "s' = s1"
      by (simp add: rewriteNode_def split: prod.splits)
    from mightRenameSelector_cases[OF r] e show ?thesis by auto
  qed (use A in \<open>auto simp: rewriteNode_def\<close>)
  then show "pkg s' = pkg ct \<and> cfile s' = cfile ct
        \<and> filter (\<lambda>i. AddPath i = P) (addedImports s') = filter (\<lambda>i. AddPath i = P) (addedImports ct)"
  proof
    assume "s' = s" with I show ?thesis by simp
  next
    assume "\<exists>name path. s' = addImport name path s \<and> findImport path (Imports (cfile s)) = None"
    then obtain name path where e: "s' = addImport name path s"
      and f: "findImport path (Imports (cfile s)) = None" by blast
    from f I assms have "path \<noteq> P" by auto
    from addImport_filter[OF this] e I show ?thesis by simp
  qed
qed

lemma rewriteNode_queued:
  "preserves (rewriteNode miPkg ifacePkg) (\<lambda>s. a \<in> set (addedImports s))"
  unfolding preserves_def
proof (intro allI impI)
  fix n s n' s' d
  assume I: "a \<in> set (addedImports s)"
    and A: "rewriteNode miPkg ifacePkg n s = Inr (n', s', d)"
  have step: "s' = s \<or> (\<exists>name path. s' = addImport name path s)"
  proof (cases n)
    case (Ident i)
    with A have "mightAddSelector i ifacePkg s = (n', s', d)" by (simp add: rewriteNode_def)
    from mightAddSelector_cases[OF this] show ?thesis by auto
  next
    case (SelectorExpr x sel)
    obtain x1 s1 b1 where r: "mightRenameSelector (Uses miPkg) x sel s = (x1, s1, b1)"
      by (cases "mightRenameSelector (Uses miPkg) x sel s") auto
    from A SelectorExpr r have e: "s' = s1"
      by (simp add: rewriteNode_def split: prod.splits)
    from mightRenameSelector_cases[OF r] e show ?thesis by auto
  qed (use A in \<open>auto simp: rewriteNode_def\<close>)
  with I show "a \<in> set (addedImports s')" by (auto intro: addImport_mono)
qed

lemma rewriteNode_renames:
  assumes "Uses miPkg q = Some obj" and "ObjKind obj = PkgNameObj p"
    and "\<not> resolvesInto (Uses miPkg) n (Path (pkg s))"
    and "findImport (Path p) (Imports (cfile s)) = Some imp" and "ImpName imp = Some a"
  shows "rewriteNode miPkg ifacePkg (SelectorExpr (Ident q) n) s
           = Inr (SelectorExpr (Ident (MkIdent (NamePos q) a)) n, s, False)"
proof -
  from assms(1,2,4,5)
  have r: "mightRenameSelector (Uses miPkg) (Ident q) n s = (Ident (MkIdent (NamePos q) a), s, False)"
    by (auto simp: mightRenameSelector_def)
  from rewriteNode_selector[of miPkg ifacePkg "Ident q" n s] r assms(3) show ?thesis by auto
qed

text \<open>
  C2. Let \<open>q.n\<close> be a selector whose qualifier names the package \<open>p\<close> that owns \<open>n\<close>, a
  package other than the concrete type's (a file cannot import its own package), and let
  the concrete file import \<open>p\<close> with the explicit alias \<open>a\<close>: the import at which the
  loop over the file's imports stops, the first of \<open>p\<close> that is neither blank nor dot,
  carries \<open>a\<close>. Then the callback turns the node into \<open>a.n\<close> and leaves the concrete
  type as it is; the walk of a whole signature does so wherever it meets the selector,
  and the entries of the added imports for the path of \<open>p\<close> are the same after the walk
  as before.
\<close>

theorem imported_alias_is_reused:
  assumes "Uses miPkg q = Some obj" and "ObjKind obj = PkgNameObj p"
    and "resolvesInto (Uses miPkg) n (Path p)" and "Path p \<noteq> Path (pkg ct)"
    and "findImport (Path p) (Imports (cfile ct)) = Some imp" and "ImpName imp = Some a"
  shows "rewriteNode miPkg ifacePkg (SelectorExpr (Ident q) n) ct
           = Inr (SelectorExpr (Ident (MkIdent (NamePos q) a)) n, ct, False)
    \<and> (\<forall>t t' ct'. rewriteSignature miPkg ifacePkg t ct = Inr (t', ct') \<longrightarrow>
          filter (\<lambda>i. AddPath i = Path p) (addedImports ct')
            = filter (\<lambda>i. AddPath i = Path p) (addedImports ct)
          \<and> (\<forall>k. k < length (topNodes t) \<and> topNodes t ! k = SelectorExpr (Ident q) n
                \<longrightarrow> topNodes t' ! k = SelectorExpr (Ident (MkIdent (NamePos q) a)) n))"
proof -
  have notT: "\<And>s. pkg s = pkg ct \<Longrightarrow> \<not> resolvesInto (Uses miPkg) n (Path (pkg s))"
    using assms(3,4) by (auto simp: resolvesInto_def split: option.splits)
  have imported: "findImport (Path p) (Imports (cfile ct)) \<noteq> None" using assms(5) by simp
  note inv = rewriteNode_unqueued[OF imported, of miPkg ifacePkg]
  show ?thesis
  proof (intro conjI allI impI)
    show "rewriteNode miPkg ifacePkg (SelectorExpr (Ident q) n) ct
           = Inr (SelectorExpr (Ident (MkIdent (NamePos q) a)) n, ct, False)"
      by (rule rewriteNode_renames[OF assms(1,2) notT[OF refl] assms(5,6)])
  next
    fix t t' ct'
    assume A: "rewriteSignature miPkg ifacePkg t ct = Inr (t', ct')"
    from apply_inv(1)[OF inv _ A[unfolded rewriteSignature_def]]
    show "filter (\<lambda>i. AddPath i = Path p) (addedImports ct')
            = filter (\<lambda>i. AddPath i = Path p) (addedImports ct)" by simp
  next
    fix t t' ct' k
    assume A: "rewriteSignature miPkg ifacePkg t ct = Inr (t', ct')"
      and B: "k < length (topNodes t) \<and> topNodes t ! k = SelectorExpr (Ident q) n"
    from A have v: "visitNodes (rewriteNode miPkg ifacePkg) (topNodes t) ct = Inr (topNodes t', ct')"
      unfolding rewriteSignature_def by (rule apply_visit(1)[OF rewriteNode_stops])
    from visitNodes_nth[OF v _ rewriteNode_frame[of miPkg ifacePkg ct] _ rewriteNode_frame[of miPkg ifacePkg ct], of k] B
    obtain sk sk' d where
      p: "rewriteNode miPkg ifacePkg (SelectorExpr (Ident q) n) sk = Inr (topNodes t' ! k, sk', d)"
      and q: "pkg sk = pkg ct" "cfile sk = cfile ct"
      by auto
    from rewriteNode_renames[OF assms(1,2) notT[OF q(1)], of imp a ifacePkg] assms(5,6) q(2) p
    show "topNodes t' ! k = SelectorExpr (Ident (MkIdent (NamePos q) a)) n" by simp
  qed
qed

theorem imported_alias_is_reused_witness:
  "Uses exIfacePkg (MkIdent 10 ''models'')
       = Some (Object (PkgNameObj pkgModels) ''models'' (Some pkgP) (Basic ''invalid type''))
   \<and> resolvesInto (Uses exIfacePkg) (MkIdent 17 ''User'') (Path pkgModels)
   \<and> Path pkgModels \<noteq> Path (pkg exCt)
   \<and> findImport (Path pkgModels) (Imports (cfile exCt)) = Some (ImportSpec (Some ''m'') ''example.com/models'')
   \<and> rewriteNode exIfacePkg exIfacePkg (SelectorExpr (Ident (MkIdent 10 ''models'')) (MkIdent 17 ''User'')) exCt
       = Inr (SelectorExpr (Ident (MkIdent 10 ''m'')) (MkIdent 17 ''User''), exCt, False)
   \<and> rewriteSignature exIfacePkg exIfacePkg exSig exCt = Inr (exSig', exCt\<lparr>addedImports := exAdded\<rparr>)
   \<and> filter (\<lambda>i. AddPath i = Path pkgModels) exAdded = []
   \<and> topNodes exSig ! 1 = SelectorExpr (Ident (MkIdent 10 ''models'')) (MkIdent 17 ''User'')
   \<and> topNodes exSig' ! 1 = SelectorExpr (Ident (MkIdent 10 ''m'')) (MkIdent 17 ''User'')"
proof -
  have h1: "Uses exIfacePkg (MkIdent 10 ''models'')
       = Some (Object (PkgNameObj pkgModels) ''models'' (Some pkgP) (Basic ''invalid type''))"
    by (simp add: ex_defs)
  have h2: "ObjKind (Object (PkgNameObj pkgModels) ''models'' (Some pkgP) (Basic ''invalid type''))
       = PkgNameObj pkgModels" by simp
  have h3: "resolvesInto (Uses exIfacePkg) (MkIdent 17 ''User'') (Path pkgModels)"
    by (simp add: resolvesInto_def ex_defs)
  have h4: "Path pkgModels \<noteq> Path (pkg exCt)" by (simp add: ex_defs)
  have h5: "findImport (Path pkgModels) (Imports (cfile exCt))
       = Some (ImportSpec (Some ''m'') ''example.com/models'')"
    by (simp add: ex_defs isIgnoredImport_def)
  have h6: "ImpName (ImportSpec (Some ''m'') ''example.com/models'') = Some ''m''" by simp
  have at: "1 < length (topNodes exSig)
    \<and> topNodes exSig ! 1 = SelectorExpr (Ident (MkIdent 10 ''models'')) (MkIdent 17 ''User'')"
    by (simp add: exSig_def)
  note T = imported_alias_is_reused[OF h1 h2 h3 h4 h5 h6, of exIfacePkg]
  from T have a: "rewriteNode exIfacePkg exIfacePkg (SelectorExpr (Ident (MkIdent 10 ''models'')) (MkIdent 17 ''User'')) exCt
       = Inr (SelectorExpr (Ident (MkIdent 10 ''m'')) (MkIdent 17 ''User''), exCt, False)"
    by simp
  from T example_rewrite
  have b: "filter (\<lambda>i. AddPath i = Path pkgModels) (addedImports (exCt\<lparr>addedImports := exAdded\<rparr>))
         = filter (\<lambda>i. AddPath i = Path pkgModels) (addedImports exCt)"
    by blast
  from T example_rewrite at
  have c: "topNodes exSig' ! 1 = SelectorExpr (Ident (MkIdent (NamePos (MkIdent 10 ''models'')) ''m'')) (MkIdent 17 ''User'')"
    by blast
  from b have b': "filter (\<lambda>i. AddPath i = Path pkgModels) exAdded = []" by (simp add: exCt_def)
  from h1 h3 h4 h5 a b' c at example_rewrite show ?thesis by simp
qed

lemma rewriteNode_qualifies:
  assumes "Uses ifacePkg n = Some obj" and "ObjType obj = Named tn (Some p) u"
    and "Path p \<noteq> PkgPath ifacePkg" and "Path p \<noteq> Path (pkg s)"
  shows "rewriteNode miPkg ifacePkg (Ident n) s
           = Inr (SelectorExpr (Ident (MkIdent 0 (aliasInFile s p))) n,
                  if findImport (Path p) (Imports (cfile s)) = None then addImport [] (Path p) s else s,
                  False)"
  using assms
  by (auto simp: rewriteNode_def mightAddSelector_def aliasInFile_def Let_def split: option.splits)

text \<open>
  What \<^verbatim>\<open>mightAddSelector\<close> does where the identifier resolves. Let the bare identifier
  \<open>n\<close> resolve, in the package handed to \<^verbatim>\<open>mightAddSelector\<close>, to a named type owned
  by a package \<open>p\<close> that is neither that package nor the concrete type's. Then the
  callback replaces \<open>n\<close> by \<open>alias.n\<close>, where the alias is the name of the concrete
  file's import of \<open>p\<close> and the name of \<open>p\<close> when there is none; when no import of
  \<open>p\<close> is found (blank and dot imports do not count), \<open>p\<close> is queued with an empty
  name. The walk of a signature does both wherever it meets such an identifier, and the
  queued import is still there when it ends.
\<close>

theorem dot_imported_identifier_is_qualified:
  assumes "Uses ifacePkg n = Some obj" and "ObjType obj = Named tn (Some p) u"
    and "Path p \<noteq> PkgPath ifacePkg" and "Path p \<noteq> Path (pkg ct)"
  shows "rewriteNode miPkg ifacePkg (Ident n) ct
           = Inr (SelectorExpr (Ident (MkIdent 0 (aliasInFile ct p))) n,
                  if findImport (Path p) (Imports (cfile ct)) = None then addImport [] (Path p) ct else ct,
                  False)
    \<and> AddedImport [] (Path p) \<in> set (addedImports (addImport [] (Path p) ct))
    \<and> (\<forall>t t' ct' k. rewriteSignature miPkg ifacePkg t ct = Inr (t', ct')
          \<and> k < length (topNodes t) \<and> topNodes t ! k = Ident n
          \<longrightarrow> topNodes t' ! k = SelectorExpr (Ident (MkIdent 0 (aliasInFile ct p))) n
              \<and> (findImport (Path p) (Imports (cfile ct)) = None
                    \<longrightarrow> AddedImport [] (Path p) \<in> set (addedImports ct')))"
proof (intro conjI allI impI)
  show "rewriteNode miPkg ifacePkg (Ident n) ct
           = Inr (SelectorExpr (Ident (MkIdent 0 (aliasInFile ct p))) n,
                  if findImport (Path p) (Imports (cfile ct)) = None then addImport [] (Path p) ct else ct,
                  False)"
    by (rule rewriteNode_qualifies[OF assms])
next
  show "AddedImport [] (Path p) \<in> set (addedImports (addImport [] (Path p) ct))"
    by (rule addImport_mem)
next
  fix t t' ct' k
  assume A: "rewriteSignature miPkg ifacePkg t ct = Inr (t', ct')
          \<and> k < length (topNodes t) \<and> topNodes t ! k = Ident n"
  then have v: "visitNodes (rewriteNode miPkg ifacePkg) (topNodes t) ct = Inr (topNodes t', ct')"
    unfolding rewriteSignature_def by (blast intro: apply_visit(1)[OF rewriteNode_stops])
  from visitNodes_nth[OF v _ rewriteNode_frame[of miPkg ifacePkg ct] _
      rewriteNode_queued[of miPkg ifacePkg "AddedImport [] (Path p)"], of k] A
  obtain sk sk' d where
    p: "rewriteNode miPkg ifacePkg (Ident n) sk = Inr (topNodes t' ! k, sk', d)"
    and q: "pkg sk = pkg ct" "cfile sk = cfile ct"
    and r: "AddedImport [] (Path p) \<in> set (addedImports sk') \<longrightarrow> AddedImport [] (Path p) \<in> set (addedImports ct')"
    by auto
  from assms(4) q(1) have "Path p \<noteq> Path (pkg sk)" by simp
  from rewriteNode_qualifies[OF assms(1,2,3) this, of miPkg] p
  have e: "topNodes t' ! k = SelectorExpr (Ident (MkIdent 0 (aliasInFile sk p))) n"
    and f: "sk' = (if findImport (Path p) (Imports (cfile sk)) = None then addImport [] (Path p) sk else sk)"
    by simp_all
  from q(2) have al: "aliasInFile sk p = aliasInFile ct p" by (simp add: aliasInFile_def)
  with e show "topNodes t' ! k = SelectorExpr (Ident (MkIdent 0 (aliasInFile ct p))) n" by simp
  assume "findImport (Path p) (Imports (cfile ct)) = None"
  with f q(2) have "sk' = addImport [] (Path p) sk" by simp
  with r addImport_mem show "AddedImport [] (Path p) \<in> set (addedImports ct')" by simp
qed

theorem dot_imported_identifier_is_qualified_witness:
  "Uses exIfacePkg (MkIdent 30 ''Time'')
       = Some (Object TypeNameObj ''Time'' (Some pkgTime) (Named ''Time'' (Some pkgTime) (Basic ''int'')))
   \<and> Path pkgTime \<noteq> PkgPath exIfacePkg \<and> Path pkgTime \<noteq> Path (pkg exCt)
   \<and> findImport (Path pkgTime) (Imports (cfile exCt)) = None
   \<and> aliasInFile exCt pkgTime = ''time''
   \<and> rewriteNode exIfacePkg exIfacePkg (Ident (MkIdent 30 ''Time'')) exCt
       = Inr (SelectorExpr (Ident (MkIdent 0 ''time'')) (MkIdent 30 ''Time''),
              exCt\<lparr>addedImports := [AddedImport [] ''time'']\<rparr>, False)
   \<and> rewriteSignature exIfacePkg exIfacePkg exSig exCt = Inr (exSig', exCt\<lparr>addedImports := exAdded\<rparr>)
   \<and> topNodes exSig ! 3 = Ident (MkIdent 30 ''Time'')
   \<and> topNodes exSig' ! 3 = SelectorExpr (Ident (MkIdent 0 ''time'')) (MkIdent 30 ''Time'')
   \<and> AddedImport [] ''time'' \<in> set exAdded"
proof -
  have h1: "Uses exIfacePkg (MkIdent 30 ''Time'')
       = Some (Object TypeNameObj ''Time'' (Some pkgTime) (Named ''Time'' (Some pkgTime) (Basic ''int'')))"
    by (simp add: ex_defs)
  have h2: "ObjType (Object TypeNameObj ''Time'' (Some pkgTime) (Named ''Time'' (Some pkgTime) (Basic ''int'')))
       = Named ''Time'' (Some pkgTime) (Basic ''int'')" by simp
  have h3: "Path pkgTime \<noteq> PkgPath exIfacePkg" by (simp add: ex_defs)
  have h4: "Path pkgTime \<noteq> Path (pkg exCt)" by (simp add: ex_defs)
  have none: "findImport (Path pkgTime) (Imports (cfile exCt)) = None"
    by (simp add: ex_defs isIgnoredImport_def)
  have al: "aliasInFile exCt pkgTime = ''time''"
    by (simp add: aliasInFile_def ex_defs isIgnoredImport_def)
  have at: "3 < length (topNodes exSig) \<and> topNodes exSig ! 3 = Ident (MkIdent 30 ''Time'')"
    by (simp add: exSig_def)
  note T = dot_imported_identifier_is_qualified[OF h1 h2 h3 h4, of exIfacePkg]
  from T none al have a: "rewriteNode exIfacePkg exIfacePkg (Ident (MkIdent 30 ''Time'')) exCt
       = Inr (SelectorExpr (Ident (MkIdent 0 ''time'')) (MkIdent 30 ''Time''),
              exCt\<lparr>addedImports := [AddedImport [] ''time'']\<rparr>, False)"
    by (simp add: addImport_def ex_defs)
  from T example_rewrite at none
  have b: "topNodes exSig' ! 3 = SelectorExpr (Ident (MkIdent 0 (aliasInFile exCt pkgTime))) (MkIdent 30 ''Time'')
     \<and> AddedImport [] (Path pkgTime) \<in> set (addedImports (exCt\<lparr>addedImports := exAdded\<rparr>))"
    by blast
  from b al have c: "topNodes exSig' ! 3 = SelectorExpr (Ident (MkIdent 0 ''time'')) (MkIdent 30 ''Time'')"
    and d: "AddedImport [] ''time'' \<in> set exAdded"
    by (simp_all add: pkgTime_def)
  from h1 h3 h4 none al a c d at example_rewrite show ?thesis by simp
qed

text \<open>
  C3. \<^verbatim>\<open>MethodStubActions\<close> hands \<^verbatim>\<open>mightAddSelector\<close> the package of the requested
  interface (\<^verbatim>\<open>ir.ifacePkg\<close>), while the selectors of the same signature are resolved in
  the package that declares the method (\<^verbatim>\<open>mi.pkg\<close>). For the method \<^verbatim>\<open>At(t Time) bool\<close>
  of \<^verbatim>\<open>a.E\<close>, embedded in \<^verbatim>\<open>b.I\<close>, the identifier \<^verbatim>\<open>Time\<close> resolves in the file's own
  package to \<^verbatim>\<open>time.Time\<close>, owned by a package that is neither the interface's nor the
  concrete type's and that the concrete file does not import; in the type information
  of \<^verbatim>\<open>b\<close> it is not found, so the signature is left as it is and nothing is queued.
  With the declaring package in the place of \<^verbatim>\<open>ir.ifacePkg\<close> the same code writes
  \<^verbatim>\<open>time.Time\<close> and queues \<^verbatim>\<open>time\<close>.
\<close>

theorem embedded_dot_import_left_bare:
  "Uses exPkgA (MkIdent 30 ''Time'')
       = Some (Object TypeNameObj ''Time'' (Some pkgTime) (Named ''Time'' (Some pkgTime) (Basic ''int'')))
   \<and> Path pkgTime \<noteq> PkgPath exPkgA \<and> Path pkgTime \<noteq> PkgPath exPkgB
   \<and> Path pkgTime \<noteq> Path (pkg exCt)
   \<and> findImport (Path pkgTime) (Imports (cfile exCt)) = None
   \<and> Uses exPkgB (MkIdent 30 ''Time'') = None
   \<and> rewriteSignature exPkgA exPkgB exSigAt exCt = Inr (exSigAt, exCt)
   \<and> rewriteSignature exPkgA exPkgA exSigAt exCt
        = Inr (FuncType
                 [Field [MkIdent 25 ''t''] (SelectorExpr (Ident (MkIdent 0 ''time'')) (MkIdent 30 ''Time''))]
                 [Field [] (Ident (MkIdent 70 ''bool''))],
               exCt\<lparr>addedImports := [AddedImport [] ''time'']\<rparr>)"
  by (simp add: ex_defs exPkgA_def exPkgB_def exSigAt_def pkgA_def pkgB_def rewrite_defs Let_def)

subsection \<open>No pair is queued twice\<close>

lemma mightRenameSelector_impl_guard:
  "mightRenameSelector_impl uses x sel ct = (x', ct1, b) \<Longrightarrow>
     ct1 = ct \<or> (\<exists>nm pth. ct1 = addImport_impl nm pth ct \<and> pth \<notin> AddPath ` set (addedImports ct))"
  by (auto simp: mightRenameSelector_impl_def Let_def
      split: expr.splits option.splits objkind.splits if_splits
      dest: hasImport_None_added)

lemma mightAddSelector_impl_guard:
  "mightAddSelector_impl ident ifacePkg ct = (m', ct2, b) \<Longrightarrow>
     ct2 = ct \<or> (\<exists>pth. ct2 = addImport_impl [] pth ct \<and> pth \<notin> AddPath ` set (addedImports ct))"
  by (auto simp: mightAddSelector_impl_def Let_def
      split: option.splits gtype.splits if_splits
      dest: hasImport_None_added)

text \<open>
  C6. Throughout one synthesis the added imports never hold the same (name, path) pair
  twice. In stub.go this is the work of \<^verbatim>\<open>addImport\<close>: queueing a pair that is already
  in the list leaves the concrete type unchanged, a list without a repeated pair stays
  so, and so it does through the rewrite of a signature. In impl.go the two callers of
  \<^verbatim>\<open>addImport\<close> queue a path only when \<^verbatim>\<open>hasImport\<close> has found it neither in the file
  nor in the list: a pair that is already present is never queued there, and through
  the rewrite of a signature no two entries share even a path. The list is empty when
  the concrete type is made.
\<close>

theorem addedImports_never_duplicated:
  "(hasAdded name path (addedImports ct) \<longrightarrow> addImport name path ct = ct)
   \<and> (distinct (addedImports ct) \<longrightarrow> distinct (addedImports (addImport name path ct)))
   \<and> (distinct (addedImports ct) \<and> rewriteSignature miPkg ifacePkg n ct = Inr (n', ct')
        \<longrightarrow> distinct (addedImports ct'))
   \<and> (distinct (map AddPath (addedImports ct))
        \<and> rewriteSignature_impl ifacePkg implPath n ct = Inr (n'', ct'')
        \<longrightarrow> distinct (map AddPath (addedImports ct'')))
   \<and> (mightRenameSelector_impl uses x sel ct = (x', ct1, b)
        \<longrightarrow> ct1 = ct \<or> (\<exists>nm pth. ct1 = addImport_impl nm pth ct
                              \<and> pth \<notin> AddPath ` set (addedImports ct)))
   \<and> (mightAddSelector_impl ident ifacePkg ct = (m', ct2, b')
        \<longrightarrow> ct2 = ct \<or> (\<exists>pth. ct2 = addImport_impl [] pth ct
                              \<and> pth \<notin> AddPath ` set (addedImports ct)))"
proof (intro conjI impI)
  assume "hasAdded name path (addedImports ct)"
  then show "addImport name path ct = ct" by (simp add: addImport_def)
next
  assume "distinct (addedImports ct)"
  then show "distinct (addedImports (addImport name path ct))" by (rule addImport_distinct)
next
  assume "distinct (addedImports ct) \<and> rewriteSignature miPkg ifacePkg n ct = Inr (n', ct')"
  then show "distinct (addedImports ct')"
    unfolding rewriteSignature_def
    using apply_inv(1)[OF rewriteNode_distinct] by blast
next
  assume "distinct (map AddPath (addedImports ct))
    \<and> rewriteSignature_impl ifacePkg implPath n ct = Inr (n'', ct'')"
  then show "distinct (map AddPath (addedImports ct''))"
    unfolding rewriteSignature_impl_def
    using apply_inv(1)[OF rewriteNode_impl_distinct] by blast
next
  assume "mightRenameSelector_impl uses x sel ct = (x', ct1, b)"
  then show "ct1 = ct \<or> (\<exists>nm pth. ct1 = addImport_impl nm pth ct
                              \<and> pth \<notin> AddPath ` set (addedImports ct))"
    by (rule mightRenameSelector_impl_guard)
next
  assume "mightAddSelector_impl ident ifacePkg ct = (m', ct2, b')"
  then show "ct2 = ct \<or> (\<exists>pth. ct2 = addImport_impl [] pth ct
                              \<and> pth \<notin> AddPath ` set (addedImports ct))"
    by (rule mightAddSelector_impl_guard)
qed

theorem addedImports_never_duplicated_witness:
  "hasAdded [] ''time'' (addedImports (exCt\<lparr>addedImports := exAdded\<rparr>))
   \<and> addImport [] ''time'' (exCt\<lparr>addedImports := exAdded\<rparr>) = exCt\<lparr>addedImports := exAdded\<rparr>
   \<and> distinct (addedImports exCt)
   \<and> rewriteSignature exIfacePkg exIfacePkg exSig exCt = Inr (exSig', exCt\<lparr>addedImports := exAdded\<rparr>)
   \<and> distinct (addedImports (exCt\<lparr>addedImports := exAdded\<rparr>))
   \<and> rewriteSignature_impl exIfacePkg (Path pkgQ) exSig exCt
        = Inr (exSig', exCt\<lparr>addedImports := exAdded\<rparr>)
   \<and> distinct (map AddPath (addedImports (exCt\<lparr>addedImports := exAdded\<rparr>)))"
  using addedImports_never_duplicated[of "[]" "''time''" "exCt\<lparr>addedImports := exAdded\<rparr>"]
    addedImports_never_duplicated[of "[]" "''time''" exCt exIfacePkg exIfacePkg exSig exSig'
      "exCt\<lparr>addedImports := exAdded\<rparr>" "Path pkgQ" exSig'
      "exCt\<lparr>addedImports := exAdded\<rparr>"]
    example_rewrite example_rewrite_impl
  by (simp add: exAdded_def exCt_def)

section \<open>Properties of the missing-method computer\<close>

lemma recorded_Nil: "recorded ct idn [] V [] V"
  by (simp add: recorded_def)

lemma recorded_append:
  "recorded ct idn r1 V n1 V1 \<Longrightarrow> recorded ct idn r2 V1 n2 V2
   \<Longrightarrow> recorded ct idn (r1 @ r2) V (n1 @ n2) V2"
proof -
  assume a: "recorded ct idn r1 V n1 V1" and b: "recorded ct idn r2 V1 n2 V2"
  from a have a1: "distinct n1" and a2: "set n1 \<inter> V = {}" and a3: "V1 = V \<union> set n1"
    and a4: "set n1 = {n \<in> FuncName ` set r1. doesNotHaveMethod ct n} - V"
    and a5: "\<forall>m \<in> set r1. \<forall>h. getMethodSelection ct (FuncName m) = Some h \<longrightarrow> idn (FuncSig m) h"
    unfolding recorded_def by blast+
  from b have b1: "distinct n2" and b2: "set n2 \<inter> V1 = {}" and b3: "V2 = V1 \<union> set n2"
    and b4: "set n2 = {n \<in> FuncName ` set r2. doesNotHaveMethod ct n} - V1"
    and b5: "\<forall>m \<in> set r2. \<forall>h. getMethodSelection ct (FuncName m) = Some h \<longrightarrow> idn (FuncSig m) h"
    unfolding recorded_def by blast+
  have c1: "distinct (n1 @ n2)" using a1 b1 b2 a3 by auto
  have c2: "set (n1 @ n2) \<inter> V = {}" using a2 b2 a3 by auto
  have c3: "V2 = V \<union> set (n1 @ n2)" using a3 b3 by auto
  have c4: "set (n1 @ n2) = {n \<in> FuncName ` set (r1 @ r2). doesNotHaveMethod ct n} - V"
    using a4 b4 a3 by auto
  have c5: "\<forall>m \<in> set (r1 @ r2). \<forall>h. getMethodSelection ct (FuncName m) = Some h \<longrightarrow> idn (FuncSig m) h"
    using a5 b5 by auto
  from c1 c2 c3 c4 c5 show ?thesis unfolding recorded_def by blast
qed

lemma recorded_one:
  assumes "getMethodSelection ct (FuncName m) = None \<or> (\<exists>h. getMethodSelection ct (FuncName m) = Some h \<and> idn (FuncSig m) h)"
  shows "recorded ct idn [m] V
     (if doesNotHaveMethod ct (FuncName m) \<and> FuncName m \<notin> V then [FuncName m] else [])
     (if doesNotHaveMethod ct (FuncName m) \<and> FuncName m \<notin> V then insert (FuncName m) V else V)"
  using assms unfolding recorded_def by auto


lemma explicitMethods_recorded:
  "explicitMethods idn ct ms acc V = Inr (acc', V') \<Longrightarrow>
     \<exists>new. acc' = acc @ new \<and> recorded ct idn ms V (map FuncName new) V'"
proof (induction ms arbitrary: acc V)
  case Nil
  then show ?case by (simp add: recorded_Nil)
next
  case (Cons m ms)
  define rec where "rec = (doesNotHaveMethod ct (FuncName m) \<and> FuncName m \<notin> V)"
  define acc1 where "acc1 = (if rec then acc @ [m] else acc)"
  define V1 where "V1 = (if rec then insert (FuncName m) V else V)"
  from Cons.prems have ok: "getMethodSelection ct (FuncName m) = None
      \<or> (\<exists>h. getMethodSelection ct (FuncName m) = Some h \<and> idn (FuncSig m) h)"
    and rest: "explicitMethods idn ct ms acc1 V1 = Inr (acc', V')"
    by (auto simp: rec_def acc1_def V1_def split: option.splits if_splits)
  from Cons.IH[OF rest] obtain new where n: "acc' = acc1 @ new"
    and r: "recorded ct idn ms V1 (map FuncName new) V'" by blast
  from recorded_one[of ct m idn V] ok have
    "recorded ct idn [m] V (if rec then [FuncName m] else []) V1"
    by (simp add: rec_def V1_def)
  from recorded_append[OF this r] have
    "recorded ct idn (m # ms) V (map FuncName ((if rec then [m] else []) @ new)) V'"
    by (simp split: if_splits)
  moreover have "acc' = acc @ ((if rec then [m] else []) @ new)"
    using n by (simp add: acc1_def)
  ultimately show ?case by blast
qed


lemma Underlying_required:
  "Underlying t = Interface es ms \<Longrightarrow> requiredOf t = requiredOfList es @ ms"
  by (cases t) auto

lemma missingNames_append [simp]: "missingNames (a @ b) = missingNames a @ missingNames b"
  by (simp add: missingNames_def)

lemma missingNames_Nil [simp]: "missingNames [] = []"
  by (simp add: missingNames_def)

lemma missingNames_single [simp]:
  "missingNames [mi] = map FuncName (mi_missing mi)"
  by (simp add: missingNames_def)

lemma missing_recorded:
  "missingMethods snap ct obj ip V = Inr (res, V') \<Longrightarrow>
     recorded ct (Identical snap) (requiredOf (ObjType obj)) V (missingNames res) V'"
  "missingEmbedded snap ct ip es acc V = Inr (res, V') \<Longrightarrow>
     \<exists>new. res = acc @ new \<and> recorded ct (Identical snap) (requiredOfList es) V (missingNames new) V'"
proof (induction snap ct obj ip V and snap ct ip es acc V arbitrary: res V' and res V'
       rule: missingMethods_missingEmbedded.induct)
  case (1 snap ct ifaceObj ifacePkg visited)
  from "1.prems" obtain es ms where u: "Underlying (ObjType ifaceObj) = Interface es ms"
    by (auto split: gtype.splits)
  from "1.prems" u obtain missing V1 where
    e: "missingEmbedded snap ct ifacePkg es [] visited = Inr (missing, V1)"
    by (auto split: sum.splits)
  from "1.prems" u e obtain mmissing where
    x: "explicitMethods (Identical snap) ct ms [] V1 = Inr (mmissing, V')"
    and r: "res = (if mmissing \<noteq> []
                   then missing @ [\<lparr>mi_iface = Interface es ms,
                        mi_file = fst (projr (getFile snap ifaceObj)),
                        mi_pkg = ifacePkg, mi_missing = mmissing\<rparr>]
                   else missing)"
    by (auto split: sum.splits option.splits prod.splits if_splits)
  from "1.IH"[OF u e] have a: "recorded ct (Identical snap) (requiredOfList es) visited (missingNames missing) V1"
    by simp
  from explicitMethods_recorded[OF x]
  have b: "recorded ct (Identical snap) ms V1 (map FuncName mmissing) V'" by simp
  from r have n: "missingNames res = missingNames missing @ map FuncName mmissing"
    by (cases "mmissing = []") simp_all
  from recorded_append[OF a b] n Underlying_required[OF u] show ?case by simp
next
  case (2 snap ct ifacePkg missing visited)
  then show ?case by (simp add: recorded_Nil)
next
  case (3 snap ct ifacePkg e es missing visited)
  from "3.prems" obtain n ep u where e: "e = Named n (Some ep) u"
    by (auto split: gtype.splits option.splits)
  from "3.prems" e obtain ip where ip: "ifacePkg = Some ip"
    by (auto split: option.splits)
  from "3.prems" e ip obtain depPkg where
    d: "(if Path ep \<noteq> PkgPath ip then GetImport snap ip (Path ep) else Inr ip) = Inr depPkg"
    by (auto simp del: missingMethods.simps split: sum.splits)
  from "3.prems" e ip d obtain em V1 where
    m: "missingMethods snap ct (Object TypeNameObj n (Some ep) (Named n (Some ep) u)) (Some depPkg) visited
         = Inr (em, V1)"
    and rest: "missingEmbedded snap ct ifacePkg es (missing @ em) V1 = Inr (res, V')"
    by (auto simp del: missingMethods.simps split: sum.splits)
  from "3.IH"(1)[OF e refl ip d m]
  have a: "recorded ct (Identical snap) (requiredOf e) visited (missingNames em) V1"
    by (simp add: e)
  from "3.IH"(2)[OF e refl ip d m refl rest] obtain new where
    n: "res = (missing @ em) @ new"
    and b: "recorded ct (Identical snap) (requiredOfList es) V1 (missingNames new) V'"
    by blast
  from recorded_append[OF a b] have
    "recorded ct (Identical snap) (requiredOfList (e # es)) visited (missingNames (em @ new)) V'"
    by simp
  with n show ?case by auto
qed

lemma missing_nonempty:
  "missingMethods snap ct obj ip V = Inr (res, V') \<Longrightarrow> \<forall>mi\<in>set res. mi_missing mi \<noteq> []"
  "missingEmbedded snap ct ip es acc V = Inr (res, V') \<Longrightarrow> \<forall>mi\<in>set acc. mi_missing mi \<noteq> []
     \<Longrightarrow> \<forall>mi\<in>set res. mi_missing mi \<noteq> []"
proof (induction snap ct obj ip V and snap ct ip es acc V arbitrary: res V' and res V'
       rule: missingMethods_missingEmbedded.induct)
  case (1 snap ct ifaceObj ifacePkg visited)
  from "1.prems" obtain es ms where u: "Underlying (ObjType ifaceObj) = Interface es ms"
    by (auto split: gtype.splits)
  from "1.prems" u obtain missing V1 where
    e: "missingEmbedded snap ct ifacePkg es [] visited = Inr (missing, V1)"
    by (auto split: sum.splits)
  from "1.prems" u e obtain f fh where g: "getFile snap ifaceObj = Inr (f, fh)"
    by (auto split: sum.splits)
  from "1.prems" u e g obtain mmissing V2 where
    x: "explicitMethods (Identical snap) ct ms [] V1 = Inr (mmissing, V2)"
    by (auto split: sum.splits)
  from "1.prems" u e g x have
    r: "res = (if mmissing \<noteq> []
                   then missing @ [\<lparr>mi_iface = Interface es ms,
                        mi_file = f,
                        mi_pkg = ifacePkg, mi_missing = mmissing\<rparr>]
                   else missing)"
    by auto
  from "1.IH"[OF u e] have "\<forall>mi\<in>set missing. mi_missing mi \<noteq> []" by simp
  with r show ?case by (cases "mmissing = []") auto
next
  case (2 snap ct ifacePkg missing visited)
  then show ?case by simp
next
  case (3 snap ct ifacePkg e es missing visited)
  from "3.prems"(1) obtain n ep u where e: "e = Named n (Some ep) u"
    by (auto split: gtype.splits option.splits)
  from "3.prems"(1) e obtain ip where ip: "ifacePkg = Some ip"
    by (auto split: option.splits)
  from "3.prems"(1) e ip obtain depPkg where
    d: "(if Path ep \<noteq> PkgPath ip then GetImport snap ip (Path ep) else Inr ip) = Inr depPkg"
    by (auto simp del: missingMethods.simps split: sum.splits)
  from "3.prems"(1) e ip d obtain em V1 where
    m: "missingMethods snap ct (Object TypeNameObj n (Some ep) (Named n (Some ep) u)) (Some depPkg) visited
         = Inr (em, V1)"
    and rest: "missingEmbedded snap ct ifacePkg es (missing @ em) V1 = Inr (res, V')"
    by (auto simp del: missingMethods.simps split: sum.splits)
  from "3.IH"(1)[OF e refl ip d m] have a: "\<forall>mi\<in>set em. mi_missing mi \<noteq> []" .
  with "3.prems"(2) have "\<forall>mi\<in>set (missing @ em). mi_missing mi \<noteq> []" by auto
  from "3.IH"(2)[OF e refl ip d m refl rest this] show ?case .
qed

lemma missingNames_empty:
  "\<forall>mi\<in>set ms. mi_missing mi \<noteq> [] \<Longrightarrow> missingNames ms = [] \<longleftrightarrow> ms = []"
  by (cases ms) (auto simp: missingNames_def)

lemma renderMethod_text:
  assumes "renderMethod snap spkg ir mi m (buf, ct) = Inr (b1, c1)"
  shows "\<exists>iname sig. getIfaceName spkg (ir_ifacePkg ir) (ir_ifaceObj ir) = Inr iname
     \<and> b1 = buf @ executeTmpl (MethodData (FuncName m) iname
                  (if ir_pointer ir then ''*'' @ ObjName (ir_concreteObj ir)
                   else ObjName (ir_concreteObj ir))
                  (trimPrefix sig ''func'')) @ newline"
  using assms by (auto simp: renderMethod_def Let_def split: option.splits sum.splits)

lemma renderMethods_stubs:
  "renderMethods snap spkg ir mi ms (buf, ct) = Inr (buf', ct') \<Longrightarrow>
     \<exists>mds. map MdMethod mds = map FuncName ms
       \<and> buf' = buf @ concat (map (\<lambda>md. executeTmpl md @ newline) mds)"
proof (induction ms arbitrary: buf ct)
  case Nil
  then show ?case by simp
next
  case (Cons m ms)
  from Cons.prems obtain b1 c1 where a: "renderMethod snap spkg ir mi m (buf, ct) = Inr (b1, c1)"
    and r: "renderMethods snap spkg ir mi ms (b1, c1) = Inr (buf', ct')"
    by (auto split: sum.splits)
  from renderMethod_text[OF a] obtain md where md: "MdMethod md = FuncName m"
    and b1: "b1 = buf @ executeTmpl md @ newline"
    by (metis methodData.sel(1))
  from Cons.IH[OF r] obtain mds where x: "map MdMethod mds = map FuncName ms"
    and y: "buf' = b1 @ concat (map (\<lambda>md. executeTmpl md @ newline) mds)" by blast
  have "map MdMethod (md # mds) = map FuncName (m # ms)" using md x by simp
  moreover have "buf' = buf @ concat (map (\<lambda>md. executeTmpl md @ newline) (md # mds))"
    using b1 y by simp
  ultimately show ?case by blast
qed

lemma renderMissing_stubs:
  "renderMissing snap spkg ir missing (buf, ct) = Inr (buf', ct') \<Longrightarrow>
     \<exists>mds. map MdMethod mds = missingNames missing
       \<and> buf' = buf @ concat (map (\<lambda>md. executeTmpl md @ newline) mds)"
proof (induction missing arbitrary: buf ct)
  case Nil
  then show ?case by simp
next
  case (Cons mi mis)
  from Cons.prems obtain b1 c1 where
    a: "renderMethods snap spkg ir mi (mi_missing mi) (buf, ct) = Inr (b1, c1)"
    and r: "renderMissing snap spkg ir mis (b1, c1) = Inr (buf', ct')"
    by (auto split: sum.splits)
  from renderMethods_stubs[OF a] obtain m1 where p: "map MdMethod m1 = map FuncName (mi_missing mi)"
    and q: "b1 = buf @ concat (map (\<lambda>md. executeTmpl md @ newline) m1)" by blast
  from Cons.IH[OF r] obtain m2 where x: "map MdMethod m2 = missingNames mis"
    and y: "buf' = b1 @ concat (map (\<lambda>md. executeTmpl md @ newline) m2)" by blast
  have "map MdMethod (m1 @ m2) = missingNames (mi # mis)"
    using p x by (simp add: missingNames_def)
  moreover have "buf' = buf @ concat (map (\<lambda>md. executeTmpl md @ newline) (m1 @ m2))"
    using q y by simp
  ultimately show ?case by blast
qed

lemma count_list_distinct: "distinct xs \<Longrightarrow> x \<in> set xs \<Longrightarrow> count_list xs x = 1"
  by (induction xs) (auto simp: count_list_0_iff)

text \<open>
  C5. One computation of the missing methods, started with any set of visited names,
  returns a list in which no method name occurs twice and none was visited before;
  every method that the interface requires, directly or through any number of embedded
  interfaces, that the concrete type lacks and that was not visited before occurs in it
  exactly once, however many of the embedded interfaces require it. The loop that
  renders the result writes one stub for each entry of the list, in its order, so that
  exactly one stub is emitted for such a method.
\<close>

theorem diamond_method_recorded_once:
  assumes "missingMethods snap ct ifaceObj ifacePkg visited = Inr (missing, visited')"
  shows "distinct (missingNames missing)
    \<and> set (missingNames missing) \<inter> visited = {}
    \<and> visited' = visited \<union> set (missingNames missing)
    \<and> (\<forall>m \<in> set (requiredOf (ObjType ifaceObj)).
          doesNotHaveMethod ct (FuncName m) \<and> FuncName m \<notin> visited
          \<longrightarrow> count_list (missingNames missing) (FuncName m) = 1)
    \<and> (\<forall>spkg ir buf ct0 buf' ct'.
          renderMissing snap spkg ir missing (buf, ct0) = Inr (buf', ct')
          \<longrightarrow> (\<exists>mds. map MdMethod mds = missingNames missing
                 \<and> buf' = buf @ concat (map (\<lambda>md. executeTmpl md @ newline) mds)))"
proof -
  from missing_recorded(1)[OF assms]
  have r: "recorded ct (Identical snap) (requiredOf (ObjType ifaceObj)) visited (missingNames missing) visited'" .
  then have d: "distinct (missingNames missing)"
    and i: "set (missingNames missing) \<inter> visited = {}"
    and v: "visited' = visited \<union> set (missingNames missing)"
    and s: "set (missingNames missing)
        = {n \<in> FuncName ` set (requiredOf (ObjType ifaceObj)). doesNotHaveMethod ct n} - visited"
    unfolding recorded_def by blast+
  have c: "\<forall>m \<in> set (requiredOf (ObjType ifaceObj)).
          doesNotHaveMethod ct (FuncName m) \<and> FuncName m \<notin> visited
          \<longrightarrow> count_list (missingNames missing) (FuncName m) = 1"
  proof (intro ballI impI)
    fix m assume "m \<in> set (requiredOf (ObjType ifaceObj))"
      and "doesNotHaveMethod ct (FuncName m) \<and> FuncName m \<notin> visited"
    with s have "FuncName m \<in> set (missingNames missing)" by auto
    with d show "count_list (missingNames missing) (FuncName m) = 1"
      by (rule count_list_distinct)
  qed
  from d i v c renderMissing_stubs show ?thesis by blast
qed

section \<open>The workspace example, evaluated\<close>

lemmas ws_defs = wsSnap_def wsPath_def wsUses_def wsPkgP_def wsPkgQ_def fileP_def fileQ_def
  fhP_def fhQ_def selectorNode_def compositeLit_def valueSpecNode_def identNode_def diagAt_def
  objI_def objAB_def objC_def objD_def objM_def typeI_def typeA_def typeB_def typeAB_def
  typeC_def typeD_def typeM_def sigDo_def sigDoString_def sigF_def pkgP_def pkgQ_def
  wsRequest_def wsCt_def

lemmas request_defs = prepareRequest_def isMissingMethodErr_def isConversionErr_def getNodes_def
  getImplementRequest_def fromValueSpec_def inspectNode_def valueVisitor_def pointerVisitor_def
  getRequestFromReturn_def getReturnIndex_def returnVisitor_def Results_def getFile_def Let_def

lemma ws_prepare_D:
  "prepareRequest wsSnap fhP (diagAt 200)
     = Inr (wsPkgP, wsRequest objD wsPkgP, fileP, fhP, wsCt pkgP fileP objD)"
  by (simp add: ws_defs request_defs)

lemma ws_prepare_C:
  "prepareRequest wsSnap fhP (diagAt 100)
     = Inr (wsPkgP, wsRequest objC wsPkgQ, fileQ, fhQ, wsCt pkgQ fileQ objC)"
  by (simp add: ws_defs request_defs)

lemma ws_prepare_M:
  "prepareRequest wsSnap fhP (diagAt 250)
     = Inr (wsPkgP, wsRequest objM wsPkgP, fileP, fhP, wsCt pkgP fileP objM)"
  by (simp add: ws_defs request_defs)

lemma ws_missing_D:
  "missingMethods wsSnap (wsCt pkgP fileP objD) objI (Some wsPkgP) {} = Inr ([], {})"
  by (simp add: ws_defs getFile_def doesNotHaveMethod_def getMethodSelection_def)

lemma ws_missing_M:
  "missingMethods wsSnap (wsCt pkgP fileP objM) objI (Some wsPkgP) {}
     = Inl (MismatchError ''Do'' sigDoString sigDo)"
  by (simp add: ws_defs getFile_def doesNotHaveMethod_def getMethodSelection_def)

lemma ws_missing_AB:
  "missingMethods wsSnap (wsCt pkgQ fileQ objC) objAB (Some wsPkgP) {}
     = Inr ([\<lparr>mi_iface = Interface [] [Func ''F'' sigF], mi_file = fileP,
              mi_pkg = Some wsPkgP, mi_missing = [Func ''F'' sigF]\<rparr>], {''F''})"
  by (simp add: ws_defs getFile_def doesNotHaveMethod_def getMethodSelection_def)

lemma ws_actions_C:
  "MethodStubActions [diagAt 100] wsSnap fhP
     = Inr (Some [CodeAction ''Implement I'' [diagAt 100] ''quickfix'' 3 ''file:///q/q.go''
         [TextEdit ((0, 0), (0, 0))
            (''type C struct{}'' @ newline
             @ executeTmpl (MethodData ''Do'' ''I'' ''C'' ''(x int) error'') @ newline)]])"
  by (simp add: MethodStubActions_def stubAction_def ws_prepare_C)
     (simp add: ws_defs getFile_def doesNotHaveMethod_def getMethodSelection_def
        renderMethod_def stubCallback_def rewrite_defs buildAction_def getIfaceName_def
        trimPrefix_def newline_def Let_def)

theorem diamond_method_recorded_once_witness:
  "missingMethods wsSnap (wsCt pkgQ fileQ objC) objAB (Some wsPkgP) {}
     = Inr ([\<lparr>mi_iface = Interface [] [Func ''F'' sigF], mi_file = fileP,
              mi_pkg = Some wsPkgP, mi_missing = [Func ''F'' sigF]\<rparr>], {''F''})
   \<and> map FuncName (requiredOf (ObjType objAB)) = [''F'', ''F'', ''F'']
   \<and> doesNotHaveMethod (wsCt pkgQ fileQ objC) ''F''
   \<and> count_list (missingNames [\<lparr>mi_iface = Interface [] [Func ''F'' sigF], mi_file = fileP,
              mi_pkg = Some wsPkgP, mi_missing = [Func ''F'' sigF]\<rparr>]) ''F'' = 1"
  using diamond_method_recorded_once[OF ws_missing_AB] ws_missing_AB
  by (simp add: objAB_def typeAB_def typeA_def typeB_def missingNames_def wsCt_def wsSnap_def
        doesNotHaveMethod_def typeC_def objC_def typeD_def typeM_def)

end
